theory Spec2Isabelle
  imports Main
begin

section \<open>Shared data\<close>

text \<open>
  An entity ID is a MongoDB ObjectId; the code compares IDs with \<^verbatim>\<open>equals\<close> and uses
  their hex string in cache keys, so an ID is modelled by its hex string.
\<close>

type_synonym objectId = string

section \<open>FactoryManager (server/app/live/factory/FactoryManager.js)\<close>

text \<open>
  A live factory as far as the manager looks at it
  (\<^verbatim>\<open>new Factory(factoryModel, self.game)\<close>): the ID of its model, the reference to the
  model instance it wraps, and the ID of the live game it was created for.
\<close>

record factory =
  getId :: objectId
  factoryModel :: nat
  factoryGame :: objectId

subsection \<open>unloadFactory\<close>

text \<open>
  \<^verbatim>\<open>self.factories.splice(i, 1)\<close>: the list without the entry at index \<open>i\<close>.
\<close>

definition splice1 :: "nat \<Rightarrow> 'a list \<Rightarrow> 'a list" where
  "splice1 i xs = take i xs @ drop (Suc i) xs"

text \<open>
  \<^verbatim>\<open>this.factories.forEach(function(entry, i) {...})\<close> with the body of
  \<^verbatim>\<open>unloadFactory\<close>. \<^verbatim>\<open>Array.prototype.forEach\<close> reads the length once, before the
  first call, and then visits the indices \<open>0 .. len - 1\<close> of the array as it is at that
  moment, skipping an index that is no longer present. The first argument counts the
  indices still to visit, the second is the index \<open>i\<close>; the array and the flag
  \<^verbatim>\<open>unloadedAny\<close> are threaded through.
\<close>

fun unloadFactory_forEach ::
  "nat \<Rightarrow> nat \<Rightarrow> objectId \<Rightarrow> factory list \<Rightarrow> bool \<Rightarrow> factory list \<times> bool" where
  "unloadFactory_forEach 0 i fid factories unloadedAny = (factories, unloadedAny)"
| "unloadFactory_forEach (Suc n) i fid factories unloadedAny =
     (if i < length factories then
        (if getId (factories ! i) \<noteq> fid
         then unloadFactory_forEach n (Suc i) fid factories unloadedAny
         else unloadFactory_forEach n (Suc i) fid (splice1 i factories) True)
      else unloadFactory_forEach n (Suc i) fid factories unloadedAny)"

text \<open>
  \<^verbatim>\<open>FactoryManager.prototype.unloadFactory\<close>: the new list of loaded factories and the
  returned flag.
\<close>

definition unloadFactory :: "factory list \<Rightarrow> factory \<Rightarrow> factory list \<times> bool" where
  "unloadFactory factories f =
     unloadFactory_forEach (length factories) 0 (getId f) factories False"

subsection \<open>The collaborators of the manager\<close>

text \<open>
  A JavaScript \<^verbatim>\<open>Error\<close> with its message.
\<close>

datatype error = Error string

text \<open>
  Modelled from the spec: \<^verbatim>\<open>CallbackLatch\<close> (server/app/util/CallbackLatch.js is not
  among the sources), the fan-in latch of section 4.1. A latch starts with no pending
  work. \<^verbatim>\<open>add(n)\<close> increments the pending counter, \<^verbatim>\<open>resolve()\<close> decrements it, and
  when it reaches zero the continuations registered with \<^verbatim>\<open>then\<close> run, in registration
  order, exactly once. A continuation registered while the counter is zero runs at
  once. \<^verbatim>\<open>identity()\<close> resets the latch without running anything. The functions
  return the new latch and the continuations the caller has to run now; a
  continuation is named by a value of type \<open>'k\<close>.
\<close>

record 'k callbackLatch =
  pending :: nat
  continuations :: "'k list"

definition newCallbackLatch :: "'k callbackLatch" where
  "newCallbackLatch = \<lparr>pending = 0, continuations = []\<rparr>"

definition latch_add :: "nat \<Rightarrow> 'k callbackLatch \<Rightarrow> 'k callbackLatch" where
  "latch_add n l = l\<lparr>pending := pending l + n\<rparr>"

definition latch_resolve :: "'k callbackLatch \<Rightarrow> 'k callbackLatch \<times> 'k list" where
  "latch_resolve l =
     (if pending l - 1 = 0
      then (\<lparr>pending = 0, continuations = []\<rparr>, continuations l)
      else (l\<lparr>pending := pending l - 1\<rparr>, []))"

definition latch_then :: "'k \<Rightarrow> 'k callbackLatch \<Rightarrow> 'k callbackLatch \<times> 'k list" where
  "latch_then k l =
     (if pending l = 0 then (l, [k])
      else (l\<lparr>continuations := continuations l @ [k]\<rparr>, []))"

definition latch_identity :: "'k callbackLatch \<Rightarrow> 'k callbackLatch" where
  "latch_identity l = \<lparr>pending = 0, continuations = []\<rparr>"

text \<open>
  Modelled from the spec: \<^verbatim>\<open>MutexLoader\<close> (server/app/util/MutexLoader.js is not among
  the sources), the single-flight loader of section 4.2. The loader keeps, for every
  key with a load in flight, the callbacks waiting for its result, in the order they
  asked; a callback is named by the number of its caller. \<^verbatim>\<open>load(key, work, callback)\<close>
  starts \<^verbatim>\<open>work\<close> when no load is in flight for the key and queues the callback
  otherwise; the flag returned says whether \<^verbatim>\<open>work\<close> was invoked. When \<^verbatim>\<open>work\<close>
  settles, every waiting callback receives the result and the in-flight record is
  removed, whatever the result.
\<close>

type_synonym mutexLoader = "string \<rightharpoonup> nat list"

definition mutexLoader_load :: "string \<Rightarrow> nat \<Rightarrow> mutexLoader \<Rightarrow> mutexLoader \<times> bool" where
  "mutexLoader_load key callback ml =
     (case ml key of
        None \<Rightarrow> (ml(key \<mapsto> [callback]), True)
      | Some waiting \<Rightarrow> (ml(key \<mapsto> waiting @ [callback]), False))"

definition mutexLoader_settle ::
  "string \<Rightarrow> 'r \<Rightarrow> mutexLoader \<Rightarrow> mutexLoader \<times> (nat \<times> 'r) list" where
  "mutexLoader_settle key result ml =
     (ml(key := None),
      map (\<lambda>callback. (callback, result)) (case ml key of None \<Rightarrow> [] | Some waiting \<Rightarrow> waiting))"

text \<open>
  Modelled from the spec: \<^verbatim>\<open>ModelInstanceManager\<close> (server/app/model/ModelInstanceManager.js
  is not among the sources), the identity cache of section 4.3, and the live wrapper
  objects it constructs. A wrapper is a mutable object bound to an ID; the objects live
  in a store and are named by their index there, so that two references are the same
  object exactly when the indices are equal. \<^verbatim>\<open>create(id)\<close> returns the registered
  wrapper of the ID if there is one, and otherwise constructs a wrapper, registers it
  and returns it. \<^verbatim>\<open>clear(true)\<close> removes every registered wrapper; \<^verbatim>\<open>clear(false)\<close>
  keeps the wrappers in use by a live registry. Clearing unregisters the objects; it
  does not destroy them.
\<close>

record wrapper =
  wrapperId :: objectId
  properties :: "string \<rightharpoonup> string"

record modelInstanceManager =
  instances :: "objectId \<rightharpoonup> nat"
  objects :: "wrapper list"

definition newModelInstanceManager :: modelInstanceManager where
  "newModelInstanceManager = \<lparr>instances = Map.empty, objects = []\<rparr>"

definition create :: "objectId \<Rightarrow> modelInstanceManager \<Rightarrow> nat \<times> modelInstanceManager" where
  "create i m =
     (case instances m i of
        Some ref \<Rightarrow> (ref, m)
      | None \<Rightarrow>
          (length (objects m),
           m\<lparr>instances := (instances m)(i \<mapsto> length (objects m)),
             objects := objects m @ [\<lparr>wrapperId = i, properties = Map.empty\<rparr>]\<rparr>))"


text \<open>Writing and reading a property of the wrapper behind a reference.\<close>

definition setProperty ::
  "nat \<Rightarrow> string \<Rightarrow> string \<Rightarrow> modelInstanceManager \<Rightarrow> modelInstanceManager" where
  "setProperty ref name v m =
     (if ref < length (objects m)
      then m\<lparr>objects := (objects m)
             [ref := (objects m ! ref)\<lparr>properties := (properties (objects m ! ref))(name \<mapsto> v)\<rparr>]\<rparr>
      else m)"

definition getProperty :: "nat \<Rightarrow> string \<Rightarrow> modelInstanceManager \<Rightarrow> string option" where
  "getProperty ref name m =
     (if ref < length (objects m) then properties (objects m ! ref) name else None)"

text \<open>A run of \<^verbatim>\<open>create\<close> calls, for any IDs, each on the manager the last one left.\<close>

fun creates :: "objectId list \<Rightarrow> modelInstanceManager \<Rightarrow> modelInstanceManager" where
  "creates [] m = m"
| "creates (i # ids) m = creates ids (snd (create i m))"

text \<open>
  Every registered reference names an object of the store, and that object is bound to
  the ID it is registered under. The empty manager has the property and \<^verbatim>\<open>create\<close>
  keeps it.
\<close>

definition registered_ok :: "modelInstanceManager \<Rightarrow> bool" where
  "registered_ok m \<longleftrightarrow>
     (\<forall>i ref. instances m i = Some ref \<longrightarrow>
        ref < length (objects m) \<and> wrapperId (objects m ! ref) = i)"

subsection \<open>loadFactory\<close>

text \<open>
  The manager: the ID of its live game, the list of loaded factories and the mutex
  loader.
\<close>

record factoryManager =
  game :: objectId
  factories :: "factory list"
  mutexLoader :: mutexLoader

text \<open>
  The argument \<^verbatim>\<open>factoryId\<close> after the checks at the head of \<^verbatim>\<open>loadFactory\<close>: a
  \<^verbatim>\<open>FactoryModel\<close>, an \<^verbatim>\<open>ObjectId\<close> or a string that \<^verbatim>\<open>ObjectId.isValid\<close> accepts gives
  an ID, anything else is invalid.
\<close>

datatype factoryIdArg = FactoryId objectId | InvalidFactoryId

text \<open>
  What a callback of \<^verbatim>\<open>loadFactory\<close> receives: the error or \<^verbatim>\<open>null\<close>, and the factory
  or \<^verbatim>\<open>null\<close> (\<open>None\<close> also stands for the argument left out in \<^verbatim>\<open>callback(err)\<close>).
\<close>

type_synonym loadFactoryResult = "error option \<times> factory option"

text \<open>
  The function handed to the mutex loader. Its two questions to the model layer are
  answered later: \<open>valid\<close> is what \<^verbatim>\<open>isValidFactoryId\<close> calls back and \<open>owner\<close> what
  \<^verbatim>\<open>factoryModel.getGame\<close> calls back (the ID of the owning game), each an error or a
  value; \<open>owner\<close> is only asked for when the ID is valid. The result is the manager,
  the instance manager of the factory models and what is handed to the loader's
  \<^verbatim>\<open>callback\<close>.
\<close>

definition loadFactory_work ::
  "objectId \<Rightarrow> error + bool \<Rightarrow> error + objectId \<Rightarrow> factoryManager \<times> modelInstanceManager
     \<Rightarrow> (factoryManager \<times> modelInstanceManager) \<times> loadFactoryResult" where
  "loadFactory_work factoryId valid owner s =
     (case s of (self, im) \<Rightarrow>
        (case valid of
           Inl err \<Rightarrow> ((self, im), (Some err, None))
         | Inr v \<Rightarrow>
             if \<not> v then ((self, im), (None, None))
             else (case create factoryId im of (model, im') \<Rightarrow>
               (case owner of
                  Inl err \<Rightarrow> ((self, im'), (Some err, None))
                | Inr result \<Rightarrow>
                    if game self \<noteq> result then ((self, im'), (None, None))
                    else
                      (let newFactory = \<lparr>getId = factoryId, factoryModel = model,
                                          factoryGame = game self\<rparr>
                       in ((self\<lparr>factories := factories self @ [newFactory]\<rparr>, im'),
                           (None, Some newFactory)))))))"

text \<open>
  \<^verbatim>\<open>FactoryManager.prototype.loadFactory\<close>, the call itself. An invalid argument is
  called back at once with an error. Otherwise the call goes to the mutex loader under
  the key \<^verbatim>\<open>factoryId.toString()\<close>: it starts the work or joins the load in flight.
\<close>

datatype loadFactoryCall = CalledBack loadFactoryResult | WorkStarted | Joined

definition loadFactory ::
  "factoryIdArg \<Rightarrow> nat \<Rightarrow> factoryManager \<Rightarrow> factoryManager \<times> loadFactoryCall" where
  "loadFactory arg callback self =
     (case arg of
        InvalidFactoryId \<Rightarrow> (self, CalledBack (Some (Error ''Invalid factory ID''), None))
      | FactoryId factoryId \<Rightarrow>
          (case mutexLoader_load factoryId callback (mutexLoader self) of
             (ml, started) \<Rightarrow>
               (self\<lparr>mutexLoader := ml\<rparr>, if started then WorkStarted else Joined)))"

text \<open>
  The load in flight for \<open>factoryId\<close> completes: the work runs on the two answers and
  the loader hands its result to every waiting callback. The list returned pairs each
  callback with the result it receives.
\<close>

definition loadFactory_settle ::
  "objectId \<Rightarrow> error + bool \<Rightarrow> error + objectId \<Rightarrow> factoryManager \<times> modelInstanceManager
     \<Rightarrow> (factoryManager \<times> modelInstanceManager) \<times> (nat \<times> loadFactoryResult) list" where
  "loadFactory_settle factoryId valid owner s =
     (case loadFactory_work factoryId valid owner s of
        ((self, im), result) \<Rightarrow>
          (case mutexLoader_settle factoryId result (mutexLoader self) of
             (ml, called) \<Rightarrow> ((self\<lparr>mutexLoader := ml\<rparr>, im), called)))"

text \<open>
  Several callers ask for the same factory, one after the other, while nothing
  completes: the manager afterwards and the number of times the work was started.
\<close>

fun loadFactory_calls ::
  "objectId \<Rightarrow> nat list \<Rightarrow> factoryManager \<Rightarrow> factoryManager \<times> nat" where
  "loadFactory_calls factoryId [] self = (self, 0)"
| "loadFactory_calls factoryId (callback # callbacks) self =
     (case loadFactory (FactoryId factoryId) callback self of
        (self', call) \<Rightarrow>
          (case loadFactory_calls factoryId callbacks self' of
             (self'', n) \<Rightarrow> (self'', (if call = WorkStarted then 1 else 0) + n)))"

subsection \<open>load\<close>

text \<open>
  \<^verbatim>\<open>FactoryManager.prototype.unload\<close>: every factory is told to unload and the list is
  emptied.
\<close>

definition unload :: "factoryManager \<Rightarrow> factoryManager" where
  "unload self = self\<lparr>factories := []\<rparr>"

text \<open>
  The state \<^verbatim>\<open>load\<close> keeps between its callbacks: the latch, the flag \<^verbatim>\<open>calledBack\<close>
  and, to observe it, the calls made to the callback of \<^verbatim>\<open>load\<close> so far (each with the
  error passed, \<open>None\<close> for \<^verbatim>\<open>null\<close>). The only continuation of the latch is the one
  that calls back \<^verbatim>\<open>null\<close>.
\<close>

record loadState =
  latch :: "unit callbackLatch"
  calledBack :: bool
  callbackCalls :: "error option list"

text \<open>Run the continuations a latch operation released: each calls \<^verbatim>\<open>callback(null)\<close>.\<close>

definition load_continue :: "unit callbackLatch \<times> unit list \<Rightarrow> loadState \<Rightarrow> loadState" where
  "load_continue r s =
     s\<lparr>latch := fst r, callbackCalls := callbackCalls s @ map (\<lambda>_. None) (snd r)\<rparr>"

text \<open>
  The callback given to each \<^verbatim>\<open>loadFactory\<close>, on the error it receives (\<open>None\<close> for
  \<^verbatim>\<open>null\<close>).
\<close>

definition load_loaded :: "error option \<Rightarrow> loadState \<Rightarrow> loadState" where
  "load_loaded err s =
     (case err of
        Some e \<Rightarrow>
          s\<lparr>callbackCalls := (if \<not> calledBack s then callbackCalls s @ [Some e]
                               else callbackCalls s),
            calledBack := True\<rparr>
      | None \<Rightarrow> load_continue (latch_resolve (latch s)) s)"

text \<open>
  \<^verbatim>\<open>FactoryManager.prototype.load\<close> with a callback given. \<open>listed\<close> is what
  \<^verbatim>\<open>getFactories\<close> calls back: an error or the factories of the game. On a list, the
  loop adds one to the latch for each factory and starts its load, and the
  continuation is registered; the individual loads complete afterwards, and
  \<open>loaded\<close> lists the errors their callbacks receive (\<open>None\<close> for \<^verbatim>\<open>null\<close>), in the
  order the callbacks run. The loaded list itself is changed by \<^verbatim>\<open>unload\<close> and by each
  \<^verbatim>\<open>loadFactory\<close> as modelled above; this function follows the latch and the callback.
\<close>

definition load_started :: "objectId list \<Rightarrow> loadState" where
  "load_started listed =
     (let s = \<lparr>latch = foldl (\<lambda>l factory. latch_add 1 l) newCallbackLatch listed,
               calledBack = False, callbackCalls = []\<rparr>
      in load_continue (latch_then () (latch s)) s)"

definition load :: "error + objectId list \<Rightarrow> error option list \<Rightarrow> loadState" where
  "load listed loaded =
     (case listed of
        Inl err \<Rightarrow> \<lparr>latch = newCallbackLatch, calledBack = False, callbackCalls = [Some err]\<rparr>
      | Inr fs \<Rightarrow> foldl (\<lambda>s err. load_loaded err s) (load_started fs) loaded)"

section \<open>GameUserModelManager (server/app/model/gameuser/GameUserModelManager.js)\<close>

text \<open>
  The class \<^verbatim>\<open>GameUserModelManager\<close>. In the sources its text follows the route in
  server/app/route/ajax/team/deleteTeam.js (from line 209 on).
\<close>

subsection \<open>Numbers and strings of JavaScript\<close>

text \<open>
  A number as the manager meets it: an integer, \<^verbatim>\<open>NaN\<close> (what \<^verbatim>\<open>parseInt\<close> returns on
  a string that does not start with a number) or an infinity (what it returns on a run
  of digits too long for a double). The counts of the manager start at 0 and grow by 1
  for a row, far below \<open>2^53\<close>, where the arithmetic of JavaScript is exact; \<open>inc\<close> and
  \<open>jsPlus\<close> are that exact arithmetic.
\<close>

datatype jsNumber = NaN | Num int | Infinity | NegInfinity

fun inc :: "jsNumber \<Rightarrow> jsNumber" where
  "inc NaN = NaN"
| "inc (Num n) = Num (n + 1)"
| "inc Infinity = Infinity"
| "inc NegInfinity = NegInfinity"

fun jsPlus :: "jsNumber \<Rightarrow> jsNumber \<Rightarrow> jsNumber" where
  "jsPlus (Num a) (Num b) = Num (a + b)"
| "jsPlus NaN _ = NaN"
| "jsPlus _ NaN = NaN"
| "jsPlus Infinity NegInfinity = NaN"
| "jsPlus NegInfinity Infinity = NaN"
| "jsPlus Infinity _ = Infinity"
| "jsPlus _ Infinity = Infinity"
| "jsPlus NegInfinity _ = NegInfinity"
| "jsPlus _ NegInfinity = NegInfinity"

text \<open>
  A string is a list of characters with codes below 256. Among them the white space of
  JavaScript (what \<^verbatim>\<open>parseInt\<close> and \<^verbatim>\<open>trim\<close> skip) is the space, the tab, the line
  feed, the vertical tab, the form feed, the carriage return and the no-break space
  U+00A0.
\<close>

definition isWhiteSpace :: "char \<Rightarrow> bool" where
  "isWhiteSpace c \<longleftrightarrow>
     c \<in> set [CHR '' '', CHR 0x09, CHR 0x0A, CHR 0x0B, CHR 0x0C, CHR 0x0D, CHR 0xA0]"

definition isDigit :: "char \<Rightarrow> bool" where
  "isDigit c \<longleftrightarrow> 48 \<le> (of_char c :: nat) \<and> (of_char c :: nat) \<le> 57"

definition digitsValue :: "string \<Rightarrow> nat" where
  "digitsValue ds = foldl (\<lambda>n c. 10 * n + (of_char c - 48)) 0 ds"

text \<open>
  The number of binary digits of a natural number, and the double nearest to a natural
  number: a number below \<open>2^53\<close> is a double; a larger one is rounded to 53 binary
  digits, a tie going to the even neighbour; \<open>None\<close> when the result is beyond the
  largest double, which JavaScript holds as an infinity.
\<close>

function bitLength :: "nat \<Rightarrow> nat" where
  "bitLength n = (if n = 0 then 0 else Suc (bitLength (n div 2)))"
  by pat_completeness auto
termination
  by (relation "measure id") auto

declare bitLength.simps [simp del]

definition roundToDouble :: "nat \<Rightarrow> nat option" where
  "roundToDouble n =
     (if n < 2 ^ 53 then Some n
      else (let e = bitLength n - 53;
                q = n div 2 ^ e;
                r = n mod 2 ^ e;
                m = (if 2 ^ e < 2 * r \<or> (2 * r = 2 ^ e \<and> odd q) then q + 1 else q) * 2 ^ e
            in if m < 2 ^ 1024 then Some m else None))"

text \<open>
  \<^verbatim>\<open>parseInt(s, 10)\<close>: leading white space is skipped, a sign is read, and the longest
  run of decimal digits that follows is the number, as the double nearest to it; no
  digit gives \<^verbatim>\<open>NaN\<close>. Every digit counts (the language lets an implementation read the
  digits after the twentieth as 0).
\<close>

definition parseInt :: "string \<Rightarrow> jsNumber" where
  "parseInt s =
     (let t = dropWhile isWhiteSpace s;
          negative = (t \<noteq> [] \<and> hd t = CHR ''-'');
          u = (if t \<noteq> [] \<and> (hd t = CHR ''-'' \<or> hd t = CHR ''+'') then tl t else t);
          ds = takeWhile isDigit u
      in if ds = [] then NaN
         else (case roundToDouble (digitsValue ds) of
                 None \<Rightarrow> (if negative then NegInfinity else Infinity)
               | Some m \<Rightarrow> Num (if negative then - int m else int m)))"

text \<open>\<^verbatim>\<open>s.trim()\<close>, \<^verbatim>\<open>s.split(c)\<close> for a one-character separator and \<^verbatim>\<open>xs.join(sep)\<close>.\<close>

definition trim :: "string \<Rightarrow> string" where
  "trim s = rev (dropWhile isWhiteSpace (rev (dropWhile isWhiteSpace s)))"

fun split :: "char \<Rightarrow> string \<Rightarrow> string list" where
  "split c [] = [[]]"
| "split c (x # xs) =
     (if x = c then [] # split c xs
      else (case split c xs of [] \<Rightarrow> [[x]] | part # parts \<Rightarrow> (x # part) # parts))"

fun join :: "string \<Rightarrow> string list \<Rightarrow> string" where
  "join sep [] = []"
| "join sep [x] = x"
| "join sep (x # y # xs) = x @ sep @ join sep (y # xs)"

text \<open>
  The decimal digits of a natural number, and \<^verbatim>\<open>n.toString()\<close> of a number. The manager
  applies it to its counts; from \<open>10^21\<close> on JavaScript writes a number with an exponent,
  which is left out here.
\<close>

fun digitsOf :: "nat \<Rightarrow> nat \<Rightarrow> string" where
  "digitsOf 0 n = []"
| "digitsOf (Suc fuel) n =
     (if n < 10 then [char_of (48 + n)]
      else digitsOf fuel (n div 10) @ [char_of (48 + n mod 10)])"

definition natToString :: "nat \<Rightarrow> string" where
  "natToString n = digitsOf (Suc n) n"

fun toString :: "jsNumber \<Rightarrow> string" where
  "toString NaN = ''NaN''"
| "toString (Num n) = (if n < 0 then CHR ''-'' # natToString (nat (- n)) else natToString (nat n))"
| "toString Infinity = ''Infinity''"
| "toString NegInfinity = ''-Infinity''"

subsection \<open>The two stores and what the manager does with them\<close>

text \<open>
  A row of the game user collection. A \<^verbatim>\<open>team_id\<close> that is \<^verbatim>\<open>null\<close> or \<^verbatim>\<open>undefined\<close> is
  \<open>None\<close>; \<open>row_id\<close> is the field \<^verbatim>\<open>_id\<close>. A projection selects the fields a query
  reads; the other fields of a row are then not looked at.
\<close>

record gameUserRow =
  row_id :: objectId
  user_id :: objectId
  team_id :: "objectId option"
  is_special :: bool
  is_spectator :: bool

text \<open>
  The query objects the manager builds. A field that is \<open>None\<close> is not part of the
  object; \<open>q_or\<close> says whether the \<^verbatim>\<open>$or\<close> clause of the accepted users
  (\<^verbatim>\<open>team_id\<close> not null, or spectator, or special) is.
\<close>

datatype teamQuery = TeamNull | TeamNotNull | TeamIs objectId

record queryObject =
  q_id :: "objectId option"
  q_game_id :: "objectId option"
  q_or :: bool
  q_team_id :: "teamQuery option"
  q_is_spectator :: "bool option"
  q_is_special :: "bool option"
  q_user_id :: "objectId option"

definition emptyQuery :: queryObject where
  "emptyQuery = \<lparr>q_id = None, q_game_id = None, q_or = False, q_team_id = None,
     q_is_spectator = None, q_is_special = None, q_user_id = None\<rparr>"

text \<open>
  An error reported by the fast store (Redis) or by the authoritative store (MongoDB).
  \<^verbatim>\<open>new Error(err)\<close> is written as the \<open>err\<close> it wraps.
\<close>

datatype storeError = RedisErr string | MongoErr string

text \<open>
  What an operation does, in the order it does it: the requests it sends to the two
  stores, the warnings it prints and the calls of the caller's callback, with the error
  (\<open>None\<close> for \<^verbatim>\<open>null\<close>) and the result (\<open>None\<close> for \<^verbatim>\<open>null\<close> or an argument left out).
  \<^verbatim>\<open>setex\<close> is always sent with the expiry \<^verbatim>\<open>config.redis.cacheExpire\<close>. A model
  instance in a result is written as its ID: it is the instance that \<^verbatim>\<open>create\<close> returns
  for the ID.
\<close>

datatype 'r event =
    RedisGet string
  | RedisSetex string string
  | RedisFlushKeys string
  | MongoFetch queryObject "string list"
  | ConsoleError storeError
  | Callback "storeError option" "'r option"

text \<open>
  What the stores answer during one call: whether Redis is ready when the call starts,
  the reply to \<^verbatim>\<open>get\<close> (an error, no value, or a string), the reply of MongoDB (an error
  or the rows), whether Redis is ready when MongoDB has replied, and the error of
  \<^verbatim>\<open>setex\<close> if there is one.
\<close>

datatype redisReply = RedisFailed string | RedisNil | RedisValue string

record answers =
  ready :: bool
  got :: redisReply
  fetched :: "string + gameUserRow list"
  readyAfter :: bool
  stored :: "string option"

definition REDIS_KEY_ROOT :: string where
  "REDIS_KEY_ROOT = ''model:gameuser''"

text \<open>
  The end of every MongoDB callback: \<^verbatim>\<open>if(RedisUtils.isReady()) setex(...)\<close>, whose own
  callback prints a warning on an error.
\<close>

definition storeResult :: "answers \<Rightarrow> string \<Rightarrow> string \<Rightarrow> 'r event list" where
  "storeResult a redisCacheKey v =
     (if readyAfter a
      then RedisSetex redisCacheKey v
           # (case stored a of Some err \<Rightarrow> [ConsoleError (RedisErr err)] | None \<Rightarrow> [])
      else [])"

text \<open>
  The MongoDB stage of a query: \<^verbatim>\<open>layerFetchFieldsFromDatabase(queryObject, projection,
  function(err, data) {...})\<close>. An error is called back; otherwise the result computed
  from the rows is called back and then stored in Redis.
\<close>

definition mongoStage ::
  "answers \<Rightarrow> string \<Rightarrow> queryObject \<Rightarrow> string list \<Rightarrow> (gameUserRow list \<Rightarrow> 'r option)
     \<Rightarrow> (gameUserRow list \<Rightarrow> string) \<Rightarrow> 'r event list" where
  "mongoStage a redisCacheKey q projection result cached =
     MongoFetch q projection
     # (case fetched a of
          Inl err \<Rightarrow> [Callback (Some (MongoErr err)) None]
        | Inr data \<Rightarrow> Callback None (result data) # storeResult a redisCacheKey (cached data))"

text \<open>
  The frame every cached query but \<^verbatim>\<open>isValidId\<close> is written in:
  \<^verbatim>\<open>
  var latch = new CallbackLatch();
  if(<asked>) {
      latch.add();
      RedisUtils.getConnection().get(redisCacheKey, function(err, result) {
          if(err !== null && err !== undefined) { console.error(...); latch.resolve(); return; }
          if(<result is no value>) { latch.resolve(); return; }
          <call back the value>
      });
  }
  latch.then(function() { <the MongoDB stage> });
  \<close>
  \<open>asked\<close> is the condition of the \<^verbatim>\<open>if\<close>; \<open>onValue\<close> gives what the Redis callback does
  with a string, \<open>None\<close> when it takes the string for no value; \<open>mongo\<close> is the MongoDB
  stage, which runs whenever the latch releases its continuation.
\<close>

definition cachedQuery ::
  "bool \<Rightarrow> answers \<Rightarrow> string \<Rightarrow> (string \<Rightarrow> 'r event list option) \<Rightarrow> 'r event list
     \<Rightarrow> 'r event list" where
  "cachedQuery asked a redisCacheKey onValue mongo =
     (let l0 = (newCallbackLatch :: unit callbackLatch);
          l1 = (if asked then latch_add 1 l0 else l0);
          l2 = fst (latch_then () l1);
          released = concat (map (\<lambda>_. mongo) (snd (latch_resolve l2)))
      in (if asked then [RedisGet redisCacheKey] else [])
         @ concat (map (\<lambda>_. mongo) (snd (latch_then () l1)))
         @ (if asked then
              (case got a of
                 RedisFailed err \<Rightarrow> ConsoleError (RedisErr err) # released
               | RedisNil \<Rightarrow> released
               | RedisValue v \<Rightarrow> (case onValue v of None \<Rightarrow> released | Some called \<Rightarrow> called))
            else []))"

text \<open>
  An ID argument after the check \<^verbatim>\<open>id === null || id === undefined ||
  !ObjectId.isValid(id)\<close>.
\<close>

datatype idArg = ObjectId objectId | InvalidId

subsection \<open>isValidId and getUserById\<close>

text \<open>
  \<^verbatim>\<open>isValidId\<close> creates a latch, adds to it and resolves it, but registers no
  continuation: the MongoDB query is sent in the body of the function itself, right
  after the Redis request. The two replies can arrive in either order; \<open>redisFirst\<close>
  says which comes first.
\<close>

definition isValidId :: "idArg \<Rightarrow> answers \<Rightarrow> bool \<Rightarrow> bool event list" where
  "isValidId arg a redisFirst =
     (case arg of
        InvalidId \<Rightarrow> [Callback None (Some False)]
      | ObjectId i \<Rightarrow>
          (let l0 = (newCallbackLatch :: unit callbackLatch);
               redisCacheKey = REDIS_KEY_ROOT @ '':'' @ i @ '':exists'';
               l1 = (if ready a then latch_add 1 l0 else l0);
               released = concat (map (\<lambda>_. []) (snd (latch_resolve l1)));
               redis = (if ready a then
                          (case got a of
                             RedisFailed err \<Rightarrow> ConsoleError (RedisErr err) # released
                           | RedisNil \<Rightarrow> released
                           | RedisValue v \<Rightarrow> [Callback None (Some (v = ''1''))])
                        else []);
               mongo = (case fetched a of
                          Inl err \<Rightarrow> [Callback (Some (MongoErr err)) None]
                        | Inr data \<Rightarrow>
                            Callback None (Some (0 < length data))
                            # storeResult a redisCacheKey (if 0 < length data then ''1'' else ''0''))
           in (if ready a then [RedisGet redisCacheKey] else [])
              @ [MongoFetch (emptyQuery\<lparr>q_id := Some i\<rparr>) [''_id'']]
              @ (if redisFirst then redis @ mongo else mongo @ redis)))"

text \<open>
  \<^verbatim>\<open>getUserById\<close> hands \<^verbatim>\<open>isValidId\<close> a callback that passes an error on and turns
  the flag into the model instance of the ID or \<^verbatim>\<open>null\<close>.
\<close>

fun getUserById_callback :: "idArg \<Rightarrow> bool event \<Rightarrow> objectId event" where
  "getUserById_callback arg (Callback (Some err) r) = Callback (Some err) None"
| "getUserById_callback arg (Callback None r) =
     Callback None (case arg of ObjectId i \<Rightarrow> (if r = Some True then Some i else None)
                    | InvalidId \<Rightarrow> None)"
| "getUserById_callback arg (RedisGet k) = RedisGet k"
| "getUserById_callback arg (RedisSetex k v) = RedisSetex k v"
| "getUserById_callback arg (RedisFlushKeys k) = RedisFlushKeys k"
| "getUserById_callback arg (MongoFetch q p) = MongoFetch q p"
| "getUserById_callback arg (ConsoleError err) = ConsoleError err"

definition getUserById :: "idArg \<Rightarrow> answers \<Rightarrow> bool \<Rightarrow> objectId event list" where
  "getUserById arg a redisFirst = map (getUserById_callback arg) (isValidId arg a redisFirst)"

subsection \<open>getGameUserCount\<close>

text \<open>
  The options object after \<^verbatim>\<open>MergeUtils.merge(defaultOptions, options)\<close> (MergeUtils is
  not among the sources; the defaults are all \<^verbatim>\<open>undefined\<close>, so the merge gives the
  fields of the argument). \<open>None\<close> is \<^verbatim>\<open>undefined\<close>.
\<close>

record options =
  optPlayers :: "bool option"
  optSpectators :: "bool option"
  optSpecials :: "bool option"
  optRequested :: "bool option"
  optUser :: "objectId option"

text \<open>\<^verbatim>\<open>if(options.requested !== undefined && options.requested) {...}\<close>\<close>

definition overrideRequested :: "options \<Rightarrow> options" where
  "overrideRequested opts =
     (if optRequested opts \<noteq> None \<and> optRequested opts = Some True
      then opts\<lparr>optPlayers := Some False, optSpectators := Some False, optSpecials := Some False\<rparr>
      else opts)"

definition flagKey :: "bool option \<Rightarrow> string" where
  "flagKey flag = (case flag of None \<Rightarrow> ''?'' | Some b \<Rightarrow> (if b then ''1'' else ''0''))"

definition getGameUserCount_redisCacheKey :: "objectId \<Rightarrow> options \<Rightarrow> string" where
  "getGameUserCount_redisCacheKey gameId opts =
     REDIS_KEY_ROOT @ '':getGamePlayerCount:'' @ gameId @ '':''
     @ flagKey (optPlayers opts) @ '',''
     @ flagKey (optSpectators opts) @ '',''
     @ flagKey (optSpecials opts) @ '',''
     @ flagKey (optRequested opts)
     @ (case optUser opts of None \<Rightarrow> [] | Some user \<Rightarrow> '':user,'' @ user) @ '':count''"

definition getGameUserCount_queryObject :: "objectId \<Rightarrow> options \<Rightarrow> queryObject" where
  "getGameUserCount_queryObject gameId opts =
     (let q0 = emptyQuery\<lparr>q_game_id := Some gameId\<rparr>;
          q1 = (if optRequested opts \<noteq> None \<and> optRequested opts \<noteq> Some True
                then q0\<lparr>q_or := True\<rparr> else q0);
          q2 = (case optPlayers opts of
                  None \<Rightarrow> q1
                | Some p \<Rightarrow> q1\<lparr>q_team_id := Some (if p then TeamNotNull else TeamNull)\<rparr>);
          q3 = (case optSpectators opts of
                  None \<Rightarrow> q2 | Some b \<Rightarrow> q2\<lparr>q_is_spectator := Some b\<rparr>);
          q4 = (case optSpecials opts of
                  None \<Rightarrow> q3 | Some b \<Rightarrow> q3\<lparr>q_is_special := Some b\<rparr>)
      in (case optUser opts of None \<Rightarrow> q4 | Some user \<Rightarrow> q4\<lparr>q_user_id := Some user\<rparr>))"

definition getGameUserCount :: "objectId \<Rightarrow> options \<Rightarrow> answers \<Rightarrow> jsNumber event list" where
  "getGameUserCount gameId opts0 a =
     (let opts = overrideRequested opts0;
          redisCacheKey = getGameUserCount_redisCacheKey gameId opts
      in cachedQuery (ready a) a redisCacheKey
           (\<lambda>v. Some [Callback None (Some (parseInt v))])
           (mongoStage a redisCacheKey (getGameUserCount_queryObject gameId opts) [''_id'']
              (\<lambda>data. Some (Num (int (length data))))
              (\<lambda>data. natToString (length data))))"

subsection \<open>getGameUsersCount\<close>

record gameUsersState =
  total :: jsNumber
  totalAccepted :: jsNumber
  players :: jsNumber
  specials :: jsNumber
  spectators :: jsNumber
  requested :: jsNumber

definition gameUsersStateObject :: gameUsersState where
  "gameUsersStateObject =
     \<lparr>total = Num 0, totalAccepted = Num 0, players = Num 0, specials = Num 0,
      spectators = Num 0, requested = Num 0\<rparr>"

text \<open>The body of \<^verbatim>\<open>data.forEach(function(gameUser) {...})\<close>.\<close>

definition countGameUser :: "gameUsersState \<Rightarrow> gameUserRow \<Rightarrow> gameUsersState" where
  "countGameUser s gameUser =
     (let s1 = s\<lparr>total := inc (total s)\<rparr>;
          s2 = (if team_id gameUser \<noteq> None then s1\<lparr>players := inc (players s1)\<rparr> else s1);
          s3 = (if is_special gameUser then s2\<lparr>specials := inc (specials s2)\<rparr> else s2);
          s4 = (if is_spectator gameUser then s3\<lparr>spectators := inc (spectators s3)\<rparr> else s3)
      in if team_id gameUser = None \<and> \<not> is_special gameUser \<and> \<not> is_spectator gameUser
         then s4\<lparr>requested := inc (requested s4)\<rparr>
         else s4\<lparr>totalAccepted := inc (totalAccepted s4)\<rparr>)"

definition countGameUsers :: "gameUsersState \<Rightarrow> gameUserRow list \<Rightarrow> gameUsersState" where
  "countGameUsers s data = foldl countGameUser s data"

text \<open>When is a row counted as a requested user.\<close>

definition isRequested :: "gameUserRow \<Rightarrow> bool" where
  "isRequested gameUser \<longleftrightarrow>
     team_id gameUser = None \<and> \<not> is_special gameUser \<and> \<not> is_spectator gameUser"

text \<open>
  \<^verbatim>\<open>parseInt(resultSplitted[i], 10)\<close>: an index beyond the parts gives \<^verbatim>\<open>undefined\<close>,
  which \<^verbatim>\<open>parseInt\<close> reads as \<^verbatim>\<open>NaN\<close>.
\<close>

definition parseIntAt :: "string list \<Rightarrow> nat \<Rightarrow> jsNumber" where
  "parseIntAt parts i = (if i < length parts then parseInt (parts ! i) else NaN)"

definition gameUsersState_ofString :: "string \<Rightarrow> gameUsersState" where
  "gameUsersState_ofString v =
     (let resultSplitted = split CHR '';'' v
      in \<lparr>total = parseIntAt resultSplitted 0, totalAccepted = parseIntAt resultSplitted 1,
          players = parseIntAt resultSplitted 2, specials = parseIntAt resultSplitted 3,
          spectators = parseIntAt resultSplitted 4, requested = parseIntAt resultSplitted 5\<rparr>)"

definition gameUsersState_dataString :: "gameUsersState \<Rightarrow> string" where
  "gameUsersState_dataString s =
     toString (total s) @ '';'' @ toString (totalAccepted s) @ '';'' @ toString (players s)
     @ '';'' @ toString (specials s) @ '';'' @ toString (spectators s) @ '';''
     @ toString (requested s)"

definition getGameUsersCount :: "objectId \<Rightarrow> answers \<Rightarrow> gameUsersState event list" where
  "getGameUsersCount gameId a =
     (let redisCacheKey = REDIS_KEY_ROOT @ '':getGameUsersCount:'' @ gameId
      in cachedQuery (ready a) a redisCacheKey
           (\<lambda>v. Some [Callback None (Some (gameUsersState_ofString v))])
           (mongoStage a redisCacheKey (emptyQuery\<lparr>q_game_id := Some gameId\<rparr>)
              [''team_id'', ''is_special'', ''is_spectator'']
              (\<lambda>data. Some (countGameUsers gameUsersStateObject data))
              (\<lambda>data. gameUsersState_dataString (countGameUsers gameUsersStateObject data))))"

subsection \<open>hasUser and getUserGameState\<close>

text \<open>
  \<^verbatim>\<open>hasUser\<close> merges the user into the options and hands \<^verbatim>\<open>getGameUserCount\<close> a callback
  that passes an error on and turns a count into \<^verbatim>\<open>result > 0\<close>.
\<close>

fun hasUser_callback :: "jsNumber event \<Rightarrow> bool event" where
  "hasUser_callback (Callback (Some err) r) = Callback (Some err) None"
| "hasUser_callback (Callback None r) =
     Callback None (Some (case r of Some (Num n) \<Rightarrow> 0 < n | Some Infinity \<Rightarrow> True
                          | _ \<Rightarrow> False))"
| "hasUser_callback (RedisGet k) = RedisGet k"
| "hasUser_callback (RedisSetex k v) = RedisSetex k v"
| "hasUser_callback (RedisFlushKeys k) = RedisFlushKeys k"
| "hasUser_callback (MongoFetch q p) = MongoFetch q p"
| "hasUser_callback (ConsoleError err) = ConsoleError err"

definition hasUser :: "objectId \<Rightarrow> objectId \<Rightarrow> options \<Rightarrow> answers \<Rightarrow> bool event list" where
  "hasUser gameId user opts a =
     map hasUser_callback (getGameUserCount gameId (opts\<lparr>optUser := Some user\<rparr>) a)"

record userGameState =
  player :: bool
  special :: bool
  spectator :: bool
  requested' :: bool

definition userGameState_ofString :: "string \<Rightarrow> userGameState" where
  "userGameState_ofString v =
     (let dataSplitted = split CHR '';'' v;
          flag = (\<lambda>i. i < length dataSplitted \<and> dataSplitted ! i = ''1'')
      in \<lparr>player = flag 0, special = flag 1, spectator = flag 2, requested' = flag 3\<rparr>)"

text \<open>
  The rows are read one after the other into the same object, so the last row decides;
  no row leaves the object as it was created.
\<close>

definition userGameState_ofData :: "gameUserRow list \<Rightarrow> userGameState" where
  "userGameState_ofData data =
     (let s0 = \<lparr>player = False, special = False, spectator = False, requested' = False\<rparr>
      in if 0 < length data then
           (let s1 = foldl (\<lambda>s gameUser. s\<lparr>player := team_id gameUser \<noteq> None,
                                             special := is_special gameUser,
                                             spectator := is_spectator gameUser\<rparr>) s0 data
            in if \<not> player s1 \<and> \<not> special s1 \<and> \<not> spectator s1
               then s1\<lparr>requested' := True\<rparr> else s1)
         else s0)"

definition userGameState_dataString :: "userGameState \<Rightarrow> string" where
  "userGameState_dataString s =
     (if player s then ''1'' else ''0'') @ '';'' @ (if special s then ''1'' else ''0'') @ '';''
     @ (if spectator s then ''1'' else ''0'') @ '';'' @ (if requested' s then ''1'' else ''0'')"

definition getUserGameState ::
  "objectId \<Rightarrow> objectId \<Rightarrow> answers \<Rightarrow> userGameState event list" where
  "getUserGameState gameId user a =
     (let redisCacheKey = REDIS_KEY_ROOT @ '':getUserGameState:'' @ gameId @ '':'' @ user
      in cachedQuery (ready a) a redisCacheKey
           (\<lambda>v. Some [Callback None (Some (userGameState_ofString v))])
           (mongoStage a redisCacheKey
              (emptyQuery\<lparr>q_game_id := Some gameId, q_user_id := Some user\<rparr>)
              [''team_id'', ''is_special'', ''is_spectator'']
              (\<lambda>data. Some (userGameState_ofData data))
              (\<lambda>data. userGameState_dataString (userGameState_ofData data))))"

subsection \<open>getGameUsers and getGameUser\<close>


definition getGameUser :: "idArg \<Rightarrow> idArg \<Rightarrow> answers \<Rightarrow> objectId event list" where
  "getGameUser gameArg userArg a =
     (case gameArg of
        InvalidId \<Rightarrow> [Callback None None]
      | ObjectId gameId \<Rightarrow>
          (case userArg of
             InvalidId \<Rightarrow> [Callback None None]
           | ObjectId user \<Rightarrow>
               (let redisCacheKey = REDIS_KEY_ROOT @ '':getGameUser'' @ gameId @ '':'' @ user
                in cachedQuery (ready a) a redisCacheKey
                     (\<lambda>v. if v = [] then None else Some [Callback None (Some v)])
                     (mongoStage a redisCacheKey
                        (emptyQuery\<lparr>q_game_id := Some gameId, q_user_id := Some user\<rparr>) [''_id'']
                        (\<lambda>data. if 0 < length data then Some (row_id (hd data)) else None)
                        (\<lambda>data. if 0 < length data then row_id (hd data) else [])))))"

subsection \<open>getTeamGameUsers, getTeamUsers and getTeamUserCount\<close>

text \<open>
  The Redis callback of \<^verbatim>\<open>getTeamGameUsers\<close> and \<^verbatim>\<open>getTeamUsers\<close> on a string: an empty
  list for a string of white space, otherwise the parts between the commas that are not
  white space.
\<close>

definition idsOfString :: "string \<Rightarrow> objectId list" where
  "idsOfString v =
     (if length (trim v) = 0 then []
      else filter (\<lambda>part. length (trim part) \<noteq> 0) (split CHR '','' v))"

text \<open>
  In both functions the condition of the Redis branch is
  \<^verbatim>\<open>RedisUtils.isReady() && false\<close>.
\<close>

definition getTeamGameUsers :: "idArg \<Rightarrow> answers \<Rightarrow> objectId list event list" where
  "getTeamGameUsers teamArg a =
     (case teamArg of
        InvalidId \<Rightarrow> [Callback None None]
      | ObjectId team \<Rightarrow>
          (let redisCacheKey = REDIS_KEY_ROOT @ '':getTeamGameUsers:'' @ team
           in cachedQuery (ready a \<and> False) a redisCacheKey
                (\<lambda>v. Some [Callback None (Some (idsOfString v))])
                (mongoStage a redisCacheKey (emptyQuery\<lparr>q_team_id := Some (TeamIs team)\<rparr>)
                   [''_id'']
                   (\<lambda>data. Some (map row_id data))
                   (\<lambda>data. join '','' (map row_id data)))))"

definition getTeamUsers :: "idArg \<Rightarrow> answers \<Rightarrow> objectId list event list" where
  "getTeamUsers teamArg a =
     (case teamArg of
        InvalidId \<Rightarrow> [Callback None None]
      | ObjectId team \<Rightarrow>
          (let redisCacheKey = REDIS_KEY_ROOT @ '':getTeamUsers:'' @ team
           in cachedQuery (ready a \<and> False) a redisCacheKey
                (\<lambda>v. Some [Callback None (Some (idsOfString v))])
                (mongoStage a redisCacheKey (emptyQuery\<lparr>q_team_id := Some (TeamIs team)\<rparr>)
                   [''user_id'']
                   (\<lambda>data. Some (map user_id data))
                   (\<lambda>data. join '','' (map user_id data)))))"

definition getTeamUserCount :: "idArg \<Rightarrow> answers \<Rightarrow> jsNumber event list" where
  "getTeamUserCount teamArg a =
     (case teamArg of
        InvalidId \<Rightarrow> [Callback None None]
      | ObjectId team \<Rightarrow>
          (let redisCacheKey = REDIS_KEY_ROOT @ '':getTeamUserCount:'' @ team
           in cachedQuery (ready a) a redisCacheKey
                (\<lambda>v. Some [Callback None (Some (parseInt v))])
                (mongoStage a redisCacheKey (emptyQuery\<lparr>q_team_id := Some (TeamIs team)\<rparr>)
                   [''_id'']
                   (\<lambda>data. Some (Num (int (length data))))
                   (\<lambda>data. natToString (length data)))))"

subsection \<open>flushCache\<close>


subsection \<open>Reading what an operation did\<close>

fun isCallback :: "'r event \<Rightarrow> bool" where
  "isCallback (Callback err r) = True"
| "isCallback _ = False"

fun isMongoFetch :: "'r event \<Rightarrow> bool" where
  "isMongoFetch (MongoFetch q p) = True"
| "isMongoFetch _ = False"

fun isRedisGet :: "'r event \<Rightarrow> bool" where
  "isRedisGet (RedisGet k) = True"
| "isRedisGet _ = False"






section \<open>Properties of unloadFactory\<close>

lemma splice1_length:
  "i < length xs \<Longrightarrow> length (splice1 i xs) = length xs - 1"
  by (simp add: splice1_def)

lemma splice1_filter:
  assumes "i < length xs" and "\<not> P (xs ! i)"
  shows "filter P (splice1 i xs) = filter P xs"
proof -
  have "xs = take i xs @ xs ! i # drop (Suc i) xs"
    using assms(1) by (simp add: id_take_nth_drop)
  then have "filter P xs = filter P (take i xs) @ filter P (drop (Suc i) xs)"
    using assms(2) by (metis filter.simps(2) filter_append)
  then show ?thesis by (simp add: splice1_def)
qed

lemma unloadFactory_forEach_keeps_others:
  "filter (\<lambda>e. getId e \<noteq> fid) (fst (unloadFactory_forEach n i fid xs u))
     = filter (\<lambda>e. getId e \<noteq> fid) xs"
proof (induction n arbitrary: i xs u)
  case 0
  then show ?case by simp
next
  case (Suc n)
  then show ?case by (simp add: splice1_filter)
qed

lemma unloadFactory_forEach_flag:
  "snd (unloadFactory_forEach n i fid xs u)
     \<longleftrightarrow> u \<or> length (fst (unloadFactory_forEach n i fid xs u)) < length xs"
  and unloadFactory_forEach_length:
  "length (fst (unloadFactory_forEach n i fid xs u)) \<le> length xs"
proof (induction n arbitrary: i xs u)
  case 0
  { case 1 show ?case by simp }
  { case 2 show ?case by simp }
next
  case (Suc n)
  { case 1
    show ?case
    proof (cases "i < length xs \<and> getId (xs ! i) = fid")
      case True
      have "length (fst (unloadFactory_forEach n (Suc i) fid (splice1 i xs) True))
              \<le> length (splice1 i xs)"
        by (rule Suc.IH(2))
      with True show ?thesis
        using Suc.IH(1)[of "Suc i" "splice1 i xs" True]
        by (simp add: splice1_length) arith
    next
      case False
      then show ?thesis using Suc.IH(1)[of "Suc i" xs u] by auto
    qed }
  { case 2
    show ?case
    proof (cases "i < length xs \<and> getId (xs ! i) = fid")
      case True
      have "length (fst (unloadFactory_forEach n (Suc i) fid (splice1 i xs) True))
              \<le> length (splice1 i xs)"
        by (rule Suc.IH(2))
      with True show ?thesis by (simp add: splice1_length)
    next
      case False
      then show ?thesis using Suc.IH(2)[of "Suc i" xs u] by auto
    qed }
qed

text \<open>
  What holds of \<^verbatim>\<open>unloadFactory\<close> on every list: the entries with another ID stay, in
  their order, and the flag says whether the list became shorter.
\<close>

lemma unloadFactory_keeps_others:
  "filter (\<lambda>e. getId e \<noteq> getId f) (fst (unloadFactory fs f))
     = filter (\<lambda>e. getId e \<noteq> getId f) fs"
  by (simp add: unloadFactory_def unloadFactory_forEach_keeps_others)

lemma unloadFactory_flag:
  "snd (unloadFactory fs f)
     \<longleftrightarrow> length (fst (unloadFactory fs f)) < length fs"
  using unloadFactory_forEach_flag[of "length fs" 0 "getId f" fs False]
  by (simp add: unloadFactory_def)

text \<open>
  C9. The claim: \<^verbatim>\<open>unloadFactory\<close> removes every entry whose ID equals the ID of the
  given factory. On the code, two loaded entries with the same ID that stand next to
  each other are not both removed: after \<^verbatim>\<open>splice(0, 1)\<close> the second entry sits at
  index 0, which \<^verbatim>\<open>forEach\<close> has already passed. With the list \<open>[a, a]\<close> and the
  factory \<open>a\<close> the call returns true and leaves one entry with the ID of \<open>a\<close> loaded.
\<close>

theorem unloadFactory_adjacent_duplicates:
  "unloadFactory
     [\<lparr>getId = ''aa'', factoryModel = 0, factoryGame = ''g1''\<rparr>,
      \<lparr>getId = ''aa'', factoryModel = 0, factoryGame = ''g1''\<rparr>]
     \<lparr>getId = ''aa'', factoryModel = 0, factoryGame = ''g1''\<rparr>
   = ([\<lparr>getId = ''aa'', factoryModel = 0, factoryGame = ''g1''\<rparr>], True)"
  by (simp add: unloadFactory_def splice1_def numeral_2_eq_2)

section \<open>Properties of the instance manager\<close>

lemma create_registered_ok: "registered_ok m \<Longrightarrow> registered_ok (snd (create i m))"
proof (cases "instances m i")
  case None
  assume ok: "registered_ok m"
  show ?thesis
    unfolding registered_ok_def
  proof (intro allI impI)
    fix j ref
    assume reg: "instances (snd (create i m)) j = Some ref"
    show "ref < length (objects (snd (create i m)))
            \<and> wrapperId (objects (snd (create i m)) ! ref) = j"
    proof (cases "j = i")
      case True
      with reg None show ?thesis by (auto simp: create_def nth_append)
    next
      case False
      with reg None have "instances m j = Some ref" by (simp add: create_def)
      with ok have "ref < length (objects m) \<and> wrapperId (objects m ! ref) = j"
        by (simp add: registered_ok_def)
      with None show ?thesis by (simp add: create_def nth_append)
    qed
  qed
next
  case (Some ref)
  assume "registered_ok m"
  with Some show ?thesis by (simp add: create_def)
qed

lemma creates_registered_ok: "registered_ok m \<Longrightarrow> registered_ok (creates ids m)"
  by (induction ids arbitrary: m) (simp_all add: create_registered_ok)

lemma create_registers: "instances (snd (create i m)) i = Some (fst (create i m))"
  by (simp add: create_def split: option.splits)

lemma create_keeps: "instances m j = Some ref \<Longrightarrow> instances (snd (create i m)) j = Some ref"
  by (auto simp: create_def split: option.splits)

lemma creates_keeps: "instances m j = Some ref \<Longrightarrow> instances (creates ids m) j = Some ref"
  by (induction ids arbitrary: m) (simp_all add: create_keeps)

lemma create_again: "instances m i = Some ref \<Longrightarrow> create i m = (ref, m)"
  by (simp add: create_def)

lemma get_set_property:
  "ref < length (objects m) \<Longrightarrow> getProperty ref name (setProperty ref name v m) = Some v"
  by (simp add: getProperty_def setProperty_def)

text \<open>
  C2. Two calls of \<^verbatim>\<open>create\<close> for the same ID, with any other \<^verbatim>\<open>create\<close> calls but no
  \<^verbatim>\<open>clear\<close> between them, return the same reference; the second call changes
  nothing; and a property written through the reference of the first call is read
  through the reference of the second.
\<close>

theorem create_same_reference:
  assumes "registered_ok m"
  shows "fst (create i (creates ids (snd (create i m)))) = fst (create i m)
       \<and> snd (create i (creates ids (snd (create i m)))) = creates ids (snd (create i m))
       \<and> getProperty (fst (create i (creates ids (snd (create i m))))) name
            (setProperty (fst (create i m)) name v (creates ids (snd (create i m)))) = Some v"
proof -
  let ?m1 = "creates ids (snd (create i m))"
  have reg: "instances ?m1 i = Some (fst (create i m))"
    by (rule creates_keeps) (rule create_registers)
  then have again: "create i ?m1 = (fst (create i m), ?m1)"
    by (rule create_again)
  have "registered_ok ?m1"
    using assms by (simp add: creates_registered_ok create_registered_ok)
  with reg have "fst (create i m) < length (objects ?m1)"
    by (simp add: registered_ok_def)
  then show ?thesis
    using again by (simp add: get_set_property)
qed

lemma registered_ok_new: "registered_ok newModelInstanceManager"
  by (simp add: registered_ok_def newModelInstanceManager_def)

theorem create_same_reference_witness:
  "registered_ok newModelInstanceManager
   \<and> fst (create ''a1'' (creates [''b2''] (snd (create ''a1'' newModelInstanceManager)))) = 0
   \<and> fst (create ''a1'' newModelInstanceManager) = 0
   \<and> getProperty 0 ''name''
        (setProperty 0 ''name'' ''x''
           (creates [''b2''] (snd (create ''a1'' newModelInstanceManager)))) = Some ''x''"
proof -
  have ok: "registered_ok newModelInstanceManager"
    by (rule registered_ok_new)
  have same: "fst (create ''a1'' (creates [''b2''] (snd (create ''a1'' newModelInstanceManager))))
      = fst (create ''a1'' newModelInstanceManager)"
    and seen: "getProperty
        (fst (create ''a1'' (creates [''b2''] (snd (create ''a1'' newModelInstanceManager)))))
        ''name''
        (setProperty (fst (create ''a1'' newModelInstanceManager)) ''name'' ''x''
           (creates [''b2''] (snd (create ''a1'' newModelInstanceManager)))) = Some ''x''"
    using create_same_reference[OF ok, of "''a1''" "[''b2'']" "''name''" "''x''"] by blast+
  have first: "fst (create ''a1'' newModelInstanceManager) = 0"
    by (simp add: create_def newModelInstanceManager_def)
  show ?thesis
    using ok same seen first by simp
qed

section \<open>Properties of loadFactory\<close>

lemma loadFactory_calls_joined:
  "mutexLoader self factoryId = Some waiting \<Longrightarrow>
   loadFactory_calls factoryId callbacks self
     = (self\<lparr>mutexLoader := (mutexLoader self)(factoryId \<mapsto> waiting @ callbacks)\<rparr>, 0)"
proof (induction callbacks arbitrary: self waiting)
  case Nil
  then have "(mutexLoader self)(factoryId \<mapsto> waiting) = mutexLoader self"
    by (simp add: fun_upd_idem)
  then show ?case by simp
next
  case (Cons c cs)
  let ?self' = "self\<lparr>mutexLoader := (mutexLoader self)(factoryId \<mapsto> waiting @ [c])\<rparr>"
  have call: "loadFactory (FactoryId factoryId) c self = (?self', Joined)"
    using Cons.prems by (simp add: loadFactory_def mutexLoader_load_def)
  have "mutexLoader ?self' factoryId = Some (waiting @ [c])" by simp
  from Cons.IH[OF this]
  have "loadFactory_calls factoryId cs ?self'
      = (self\<lparr>mutexLoader := (mutexLoader self)(factoryId \<mapsto> waiting @ c # cs)\<rparr>, 0)"
    by (simp del: fun_upd_apply)
  with call show ?case by (simp del: fun_upd_apply)
qed

lemma loadFactory_calls_fresh:
  assumes "mutexLoader self factoryId = None" and "callbacks \<noteq> []"
  shows "loadFactory_calls factoryId callbacks self
     = (self\<lparr>mutexLoader := (mutexLoader self)(factoryId \<mapsto> callbacks)\<rparr>, 1)"
proof -
  obtain c cs where cs: "callbacks = c # cs"
    using assms(2) by (cases callbacks) auto
  let ?self' = "self\<lparr>mutexLoader := (mutexLoader self)(factoryId \<mapsto> [c])\<rparr>"
  have call: "loadFactory (FactoryId factoryId) c self = (?self', WorkStarted)"
    using assms(1) by (simp add: loadFactory_def mutexLoader_load_def)
  have "mutexLoader ?self' factoryId = Some [c]" by simp
  from loadFactory_calls_joined[OF this, of cs]
  have "loadFactory_calls factoryId cs ?self'
      = (self\<lparr>mutexLoader := (mutexLoader self)(factoryId \<mapsto> c # cs)\<rparr>, 0)"
    by (simp del: fun_upd_apply)
  with call cs show ?thesis by (simp del: fun_upd_apply)
qed

lemma loadFactory_work_mutexLoader:
  "mutexLoader (fst (fst (loadFactory_work factoryId valid owner (self, im)))) = mutexLoader self"
  by (simp add: loadFactory_work_def Let_def split: sum.splits prod.splits)

lemma loadFactory_work_result:
  "snd (loadFactory_work factoryId valid owner (self\<lparr>mutexLoader := ml\<rparr>, im))
     = snd (loadFactory_work factoryId valid owner (self, im))"
  by (simp add: loadFactory_work_def Let_def split: sum.splits prod.splits)

lemma loadFactory_settle_eq:
  "loadFactory_settle factoryId valid owner (self, im)
     = ((fst (fst (loadFactory_work factoryId valid owner (self, im)))
           \<lparr>mutexLoader := (mutexLoader self)(factoryId := None)\<rparr>,
         snd (fst (loadFactory_work factoryId valid owner (self, im)))),
        map (\<lambda>callback. (callback, snd (loadFactory_work factoryId valid owner (self, im))))
          (case mutexLoader self factoryId of None \<Rightarrow> [] | Some waiting \<Rightarrow> waiting))"
proof -
  obtain self' im' result where w: "loadFactory_work factoryId valid owner (self, im) = ((self', im'), result)"
    by (metis prod.exhaust)
  then have "mutexLoader self' = mutexLoader self"
    using loadFactory_work_mutexLoader[of factoryId valid owner self im] by simp
  with w show ?thesis
    by (simp add: loadFactory_settle_def mutexLoader_settle_def)
qed

text \<open>
  C1. No load is in flight for the factory ID. Then any number of \<^verbatim>\<open>loadFactory\<close>
  calls for that ID, made before the load completes, start the work exactly once;
  when it completes every caller's callback receives the same result, the one the
  work computed (the same error, the same factory or the same \<^verbatim>\<open>null\<close>); and afterwards
  nothing is in flight for the ID, so that a later call starts the work again.
\<close>

theorem loadFactory_single_flight:
  assumes "mutexLoader self factoryId = None" and "callbacks \<noteq> []"
  shows "snd (loadFactory_calls factoryId callbacks self) = 1
    \<and> snd (loadFactory_settle factoryId valid owner
             (fst (loadFactory_calls factoryId callbacks self), im))
        = map (\<lambda>callback. (callback, snd (loadFactory_work factoryId valid owner (self, im))))
            callbacks
    \<and> mutexLoader (fst (fst (loadFactory_settle factoryId valid owner
             (fst (loadFactory_calls factoryId callbacks self), im)))) factoryId = None
    \<and> snd (loadFactory (FactoryId factoryId) later
             (fst (fst (loadFactory_settle factoryId valid owner
                (fst (loadFactory_calls factoryId callbacks self), im))))) = WorkStarted"
proof -
  let ?self1 = "self\<lparr>mutexLoader := (mutexLoader self)(factoryId \<mapsto> callbacks)\<rparr>"
  have calls: "loadFactory_calls factoryId callbacks self = (?self1, 1)"
    using assms by (rule loadFactory_calls_fresh)
  have idle: "mutexLoader (fst (fst (loadFactory_settle factoryId valid owner (?self1, im))))
      factoryId = None"
    by (simp add: loadFactory_settle_eq)
  have "snd (loadFactory_settle factoryId valid owner (?self1, im))
      = map (\<lambda>callback. (callback, snd (loadFactory_work factoryId valid owner (self, im))))
          callbacks"
    by (simp add: loadFactory_settle_eq loadFactory_work_result)
  moreover have "snd (loadFactory (FactoryId factoryId) later
      (fst (fst (loadFactory_settle factoryId valid owner (?self1, im))))) = WorkStarted"
    using idle by (simp add: loadFactory_def mutexLoader_load_def)
  ultimately show ?thesis
    using calls idle by simp
qed

theorem loadFactory_single_flight_witness:
  "mutexLoader \<lparr>game = ''g1'', factories = [], mutexLoader = Map.empty\<rparr> ''f1'' = None
   \<and> [1, 2, 3 :: nat] \<noteq> []
   \<and> snd (loadFactory_calls ''f1'' [1, 2, 3]
            \<lparr>game = ''g1'', factories = [], mutexLoader = Map.empty\<rparr>) = 1
   \<and> snd (loadFactory_settle ''f1'' (Inr True) (Inr ''g1'')
            (fst (loadFactory_calls ''f1'' [1, 2, 3]
                    \<lparr>game = ''g1'', factories = [], mutexLoader = Map.empty\<rparr>),
             newModelInstanceManager))
       = [(1, (None, Some \<lparr>getId = ''f1'', factoryModel = 0, factoryGame = ''g1''\<rparr>)),
          (2, (None, Some \<lparr>getId = ''f1'', factoryModel = 0, factoryGame = ''g1''\<rparr>)),
          (3, (None, Some \<lparr>getId = ''f1'', factoryModel = 0, factoryGame = ''g1''\<rparr>))]"
proof -
  have idle: "mutexLoader \<lparr>game = ''g1'', factories = [], mutexLoader = Map.empty\<rparr> ''f1'' = None"
    by simp
  have some: "[1, 2, 3 :: nat] \<noteq> []"
    by simp
  have work: "snd (loadFactory_work ''f1'' (Inr True) (Inr ''g1'')
        (\<lparr>game = ''g1'', factories = [], mutexLoader = Map.empty\<rparr>, newModelInstanceManager))
      = (None, Some \<lparr>getId = ''f1'', factoryModel = 0, factoryGame = ''g1''\<rparr>)"
    by (simp add: loadFactory_work_def create_def newModelInstanceManager_def Let_def)
  show ?thesis
    using loadFactory_single_flight[OF idle some, of "Inr True" "Inr ''g1''"
        newModelInstanceManager 4] idle work
    by simp
qed

text \<open>
  C3. The factory ID is valid in the authoritative store and the factory's owning game
  is not the game of the manager. Then the callback of \<^verbatim>\<open>loadFactory\<close>, like every
  callback waiting for the same load, receives a \<^verbatim>\<open>null\<close> error and a \<^verbatim>\<open>null\<close>
  result, and the manager's list of loaded factories is what it was.
\<close>

theorem loadFactory_other_game:
  assumes "game self \<noteq> owner"
  shows "snd (loadFactory_settle factoryId (Inr True) (Inr owner)
             (fst (loadFactory (FactoryId factoryId) callback self), im))
        = map (\<lambda>c. (c, (None, None)))
            ((case mutexLoader self factoryId of None \<Rightarrow> [] | Some waiting \<Rightarrow> waiting)
               @ [callback])
    \<and> factories (fst (fst (loadFactory_settle factoryId (Inr True) (Inr owner)
             (fst (loadFactory (FactoryId factoryId) callback self), im)))) = factories self"
  using assms
  by (simp add: loadFactory_settle_eq loadFactory_def mutexLoader_load_def loadFactory_work_def
      split: option.splits prod.splits)

theorem loadFactory_other_game_witness:
  "game \<lparr>game = ''g1'', factories = [], mutexLoader = Map.empty\<rparr> \<noteq> ''g2''
   \<and> snd (loadFactory_settle ''f1'' (Inr True) (Inr ''g2'')
            (fst (loadFactory (FactoryId ''f1'') 7
                    \<lparr>game = ''g1'', factories = [], mutexLoader = Map.empty\<rparr>),
             newModelInstanceManager))
       = [(7, (None, None))]
   \<and> factories (fst (fst (loadFactory_settle ''f1'' (Inr True) (Inr ''g2'')
            (fst (loadFactory (FactoryId ''f1'') 7
                    \<lparr>game = ''g1'', factories = [], mutexLoader = Map.empty\<rparr>),
             newModelInstanceManager)))) = []"
proof -
  have other: "game \<lparr>game = ''g1'', factories = [], mutexLoader = Map.empty\<rparr> \<noteq> ''g2''"
    by simp
  show ?thesis
    using loadFactory_other_game[OF other, of "''f1''" 7 newModelInstanceManager] other
    by simp
qed

section \<open>Properties of load\<close>

lemma load_started_Nil:
  "load_started [] = \<lparr>latch = newCallbackLatch, calledBack = False, callbackCalls = [None]\<rparr>"
  by (simp add: load_started_def load_continue_def latch_then_def newCallbackLatch_def)

lemma latch_adds:
  "foldl (\<lambda>l factory. latch_add 1 l) l fs
     = l\<lparr>pending := pending l + length fs\<rparr>"
  by (induction fs arbitrary: l) (simp_all add: latch_add_def)

lemma load_started_Cons:
  "fs \<noteq> [] \<Longrightarrow> load_started fs
     = \<lparr>latch = \<lparr>pending = length fs, continuations = [()]\<rparr>,
        calledBack = False, callbackCalls = []\<rparr>"
  unfolding load_started_def latch_adds
  by (simp add: load_continue_def latch_then_def newCallbackLatch_def)

lemma load_loaded_fold:
  assumes "continuations (latch s) = [()]" and "0 < pending (latch s)"
    and "length loaded \<le> pending (latch s)"
  shows "pending (latch (foldl (\<lambda>s err. load_loaded err s) s loaded))
           = pending (latch s) - length (filter (\<lambda>err. err = None) loaded)
       \<and> callbackCalls (foldl (\<lambda>s err. load_loaded err s) s loaded)
           = callbackCalls s
             @ (if calledBack s then [] else take 1 (filter (\<lambda>err. err \<noteq> None) loaded))
             @ (if length (filter (\<lambda>err. err = None) loaded) = pending (latch s)
                then [None] else [])"
  using assms
proof (induction loaded arbitrary: s)
  case Nil
  then show ?case by simp
next
  case (Cons err loaded)
  show ?case
  proof (cases err)
    case None
    show ?thesis
    proof (cases "pending (latch s) = 1")
      case True
      with Cons.prems have "loaded = []" by simp
      with None True Cons.prems show ?thesis
        by (simp add: load_loaded_def load_continue_def latch_resolve_def)
    next
      case False
      let ?s' = "load_loaded err s"
      have s': "?s' = s\<lparr>latch := (latch s)\<lparr>pending := pending (latch s) - 1\<rparr>\<rparr>"
        using None False Cons.prems
        by (simp add: load_loaded_def load_continue_def latch_resolve_def)
      have "continuations (latch ?s') = [()]" "0 < pending (latch ?s')"
        "length loaded \<le> pending (latch ?s')"
        using s' Cons.prems False by simp_all
      from Cons.IH[OF this] s' None Cons.prems False show ?thesis
        by (auto simp: )
    qed
  next
    case (Some e)
    let ?s' = "load_loaded err s"
    have s': "?s' = s\<lparr>callbackCalls := (if \<not> calledBack s then callbackCalls s @ [Some e]
                               else callbackCalls s), calledBack := True\<rparr>"
      using Some by (simp add: load_loaded_def)
    have "continuations (latch ?s') = [()]" "0 < pending (latch ?s')"
      "length loaded \<le> pending (latch ?s')"
      using s' Cons.prems by simp_all
    from Cons.IH[OF this] s' Some Cons.prems show ?thesis
      using length_filter_le[of "\<lambda>err. err = None" loaded]
      by (auto simp: )
  qed
qed

text \<open>
  C4, as the code has it. Every individual load has called back once. Then the latch
  has been resolved once for each load that called back without an error and not at
  all for a load that called back an error: what is left pending is the number of
  failed loads. The callback of \<^verbatim>\<open>load\<close> is called exactly once: with \<^verbatim>\<open>null\<close>, by the
  continuation of the latch, when no load failed, and with the first error otherwise,
  in which case the continuation never runs.
\<close>

theorem load_resolves_successes:
  assumes "length loaded = length listed"
  shows "pending (latch (load (Inr listed) loaded))
           = length (filter (\<lambda>err. err \<noteq> None) loaded)
       \<and> callbackCalls (load (Inr listed) loaded)
           = (if filter (\<lambda>err. err \<noteq> None) loaded = [] then [None]
              else take 1 (filter (\<lambda>err. err \<noteq> None) loaded))"
proof (cases "listed = []")
  case True
  with assms show ?thesis
    by (simp add: load_def load_started_Nil newCallbackLatch_def)
next
  case False
  let ?s = "load_started listed"
  have s: "?s = \<lparr>latch = \<lparr>pending = length listed, continuations = [()]\<rparr>,
        calledBack = False, callbackCalls = []\<rparr>"
    using False by (rule load_started_Cons)
  have "continuations (latch ?s) = [()]" "0 < pending (latch ?s)"
      "length loaded \<le> pending (latch ?s)"
    using s False assms by simp_all
  note fold = load_loaded_fold[OF this]
  have split: "length loaded = length (filter (\<lambda>err. err = None) loaded)
      + length (filter (\<lambda>err. err \<noteq> None) loaded)"
    using sum_length_filter_compl[of "\<lambda>err. err = None" loaded] by simp
  have none: "filter (\<lambda>err. err \<noteq> None) loaded = []
      \<longleftrightarrow> length (filter (\<lambda>err. err = None) loaded) = length listed"
    using split assms by auto
  show ?thesis
    using fold s assms split none by (auto simp: load_def)
qed

theorem load_resolves_successes_witness:
  "length [None, Some (Error ''db'')] = length [''f1'', ''f2'']
   \<and> pending (latch (load (Inr [''f1'', ''f2'']) [None, Some (Error ''db'')])) = 1
   \<and> callbackCalls (load (Inr [''f1'', ''f2'']) [None, Some (Error ''db'')])
       = [Some (Error ''db'')]"
  using load_resolves_successes[of "[None, Some (Error ''db'')]" "[''f1'', ''f2'']"]
  by simp

text \<open>
  C4, as claimed, fails: the game has one factory and its load calls back an error.
  The \<^verbatim>\<open>add\<close> of that load is never matched by a \<^verbatim>\<open>resolve\<close>: after the load has
  completed the latch still has one pending and its continuation still waits.
\<close>

theorem load_error_leaves_latch_pending:
  "pending (latch (load (Inr [''f1'']) [Some (Error ''db'')])) = 1
   \<and> continuations (latch (load (Inr [''f1'']) [Some (Error ''db'')])) = [()]
   \<and> callbackCalls (load (Inr [''f1'']) [Some (Error ''db'')]) = [Some (Error ''db'')]"
  by (simp add: load_def load_started_def load_continue_def latch_then_def latch_add_def
      newCallbackLatch_def load_loaded_def)

section \<open>Properties of the cached queries\<close>

lemma cachedQuery_asked:
  "cachedQuery True a k onValue mongo
     = RedisGet k
       # (case got a of
            RedisFailed err \<Rightarrow> ConsoleError (RedisErr err) # mongo
          | RedisNil \<Rightarrow> mongo
          | RedisValue v \<Rightarrow> (case onValue v of None \<Rightarrow> mongo | Some called \<Rightarrow> called))"
  by (simp add: cachedQuery_def latch_then_def latch_add_def latch_resolve_def
      newCallbackLatch_def Let_def split: redisReply.splits option.splits)

lemma cachedQuery_not_asked: "cachedQuery False a k onValue mongo = mongo"
  by (simp add: cachedQuery_def latch_then_def newCallbackLatch_def Let_def)





















section \<open>Properties of isValidId\<close>

lemma isValidId_asked:
  "isValidId (ObjectId i) (a\<lparr>ready := True\<rparr>) redisFirst
     = RedisGet (REDIS_KEY_ROOT @ '':'' @ i @ '':exists'')
       # MongoFetch (emptyQuery\<lparr>q_id := Some i\<rparr>) [''_id'']
       # (let redis = (case got a of
                         RedisFailed err \<Rightarrow> [ConsoleError (RedisErr err)]
                       | RedisNil \<Rightarrow> []
                       | RedisValue v \<Rightarrow> [Callback None (Some (v = ''1''))]);
              mongo = (case fetched a of
                         Inl err \<Rightarrow> [Callback (Some (MongoErr err)) None]
                       | Inr data \<Rightarrow>
                           Callback None (Some (0 < length data))
                           # storeResult a (REDIS_KEY_ROOT @ '':'' @ i @ '':exists'')
                               (if 0 < length data then ''1'' else ''0''))
          in if redisFirst then redis @ mongo else mongo @ redis)"
  by (simp add: isValidId_def Let_def latch_resolve_def latch_add_def newCallbackLatch_def
      storeResult_def split: redisReply.splits sum.splits)

lemma filter_isCallback_storeResult: "filter isCallback (storeResult a k v) = []"
  by (simp add: storeResult_def split: option.splits)

lemma filter_isMongoFetch_storeResult: "filter isMongoFetch (storeResult a k v) = []"
  by (simp add: storeResult_def split: option.splits)

text \<open>
  C5. The claim: with the fast store ready, the callback of \<^verbatim>\<open>isValidId\<close> is invoked
  exactly once, and after a hit the authoritative store is not queried. On the code a
  hit is called back and the MongoDB query, which does not wait for the latch, is sent
  all the same and calls back a second time: whatever Redis holds under the key and
  whatever MongoDB replies, the callback is invoked twice and MongoDB is queried once.
\<close>

theorem isValidId_hit_calls_back_twice:
  "length (filter isCallback
      (isValidId (ObjectId i) (a\<lparr>got := RedisValue v, ready := True\<rparr>) redisFirst)) = 2
   \<and> length (filter isMongoFetch
      (isValidId (ObjectId i) (a\<lparr>got := RedisValue v, ready := True\<rparr>) redisFirst)) = 1"
  unfolding isValidId_asked
  by (simp add: Let_def filter_isCallback_storeResult filter_isMongoFetch_storeResult
      split: sum.splits)

text \<open>
  The other half of the claim holds: after a miss or an error of the fast store there is
  exactly one MongoDB query and exactly one call of the callback.
\<close>

lemma isValidId_miss_calls_back_once:
  assumes "got a = RedisNil \<or> (\<exists>err. got a = RedisFailed err)"
  shows "length (filter isCallback (isValidId (ObjectId i) (a\<lparr>ready := True\<rparr>) redisFirst)) = 1
   \<and> length (filter isMongoFetch (isValidId (ObjectId i) (a\<lparr>ready := True\<rparr>) redisFirst)) = 1"
  using assms unfolding isValidId_asked
  by (auto simp: Let_def filter_isCallback_storeResult filter_isMongoFetch_storeResult
      split: sum.splits)

text \<open>
  A run: Redis holds \<^verbatim>\<open>'1'\<close> for the ID and replies first, MongoDB finds the row.
\<close>

lemma isValidId_hit_example:
  "isValidId (ObjectId ''5f1'')
     \<lparr>ready = True, got = RedisValue ''1'',
      fetched = Inr [\<lparr>row_id = ''5f1'', user_id = ''u1'', team_id = None, is_special = False,
                      is_spectator = False\<rparr>],
      readyAfter = True, stored = None\<rparr> True
   = [RedisGet ''model:gameuser:5f1:exists'',
      MongoFetch (emptyQuery\<lparr>q_id := Some ''5f1''\<rparr>) [''_id''],
      Callback None (Some True),
      Callback None (Some True),
      RedisSetex ''model:gameuser:5f1:exists'' ''1'']"
  by (simp add: isValidId_def Let_def latch_resolve_def latch_add_def newCallbackLatch_def
      storeResult_def REDIS_KEY_ROOT_def)

section \<open>After an error of the fast store\<close>



lemma cachedQuery_redis_nil:
  "cachedQuery asked (a\<lparr>got := RedisNil\<rparr>) k onValue mongo
     = (if asked then [RedisGet k] else []) @ mongo"
  by (cases asked) (simp_all add: cachedQuery_asked cachedQuery_not_asked)


section \<open>Properties of getGameUserCount\<close>

lemma flagKey_single: "flagKey f = [hd (flagKey f)]"
  by (simp add: flagKey_def split: option.splits)

lemma flagKey_inj: "flagKey f = flagKey g \<Longrightarrow> f = g"
  by (auto simp: flagKey_def split: option.splits if_splits)

lemma flagKey_append_eq:
  "flagKey f @ xs = flagKey g @ ys \<longleftrightarrow> f = g \<and> xs = ys"
proof
  assume eq: "flagKey f @ xs = flagKey g @ ys"
  have "flagKey f @ xs = hd (flagKey f) # xs" "flagKey g @ ys = hd (flagKey g) # ys"
    using flagKey_single[of f] flagKey_single[of g] by (metis append_Cons append_Nil)+
  with eq have "hd (flagKey f) = hd (flagKey g)" "xs = ys" by simp_all
  then have "flagKey f = flagKey g"
    using flagKey_single[of f] flagKey_single[of g] by metis
  then show "f = g \<and> xs = ys" using \<open>xs = ys\<close> by (simp add: flagKey_inj)
qed simp

lemma userKey_eq:
  "(case u of None \<Rightarrow> [] | Some user \<Rightarrow> '':user,'' @ user) @ '':count''
     = (case u' of None \<Rightarrow> [] | Some user \<Rightarrow> '':user,'' @ user) @ '':count''
   \<longleftrightarrow> u = u'"
  by (cases u; cases u') auto

lemma getGameUserCount_redisCacheKey_eq:
  "getGameUserCount_redisCacheKey gameId opts = getGameUserCount_redisCacheKey gameId opts'
     \<longleftrightarrow> opts = opts'"
proof
  assume "getGameUserCount_redisCacheKey gameId opts = getGameUserCount_redisCacheKey gameId opts'"
  then have "optPlayers opts = optPlayers opts' \<and> optSpectators opts = optSpectators opts'
      \<and> optSpecials opts = optSpecials opts' \<and> optRequested opts = optRequested opts'
      \<and> optUser opts = optUser opts'"
    unfolding getGameUserCount_redisCacheKey_def
    by (simp only: append_assoc same_append_eq flagKey_append_eq userKey_eq append_Cons
        append_Nil list.inject)
  then show "opts = opts'" by simp
qed simp

lemma overrideRequested_idem: "overrideRequested (overrideRequested opts) = overrideRequested opts"
  by (simp add: overrideRequested_def)

text \<open>
  C7. \<^verbatim>\<open>getGameUserCount\<close> overrides the options before it builds the key and the
  query: with \<^verbatim>\<open>requested\<close> true, players, spectators and specials are false; the
  operation on some options is the operation on the overridden options, and the key it
  reads under is the key of the overridden options. For one game, two option objects
  have the same key exactly when they agree on every field (players, spectators,
  specials, requested, user) after the override; and options that agree after the
  override give the same query and the same run of the operation.
\<close>

theorem getGameUserCount_key_of_normalized_options:
  "overrideRequested (opts\<lparr>optRequested := Some True\<rparr>)
     = opts\<lparr>optRequested := Some True, optPlayers := Some False, optSpectators := Some False,
            optSpecials := Some False\<rparr>
   \<and> getGameUserCount gameId opts a = getGameUserCount gameId (overrideRequested opts) a
   \<and> take 1 (getGameUserCount gameId opts (a\<lparr>ready := True\<rparr>))
       = [RedisGet (getGameUserCount_redisCacheKey gameId (overrideRequested opts))]
   \<and> (getGameUserCount_redisCacheKey gameId (overrideRequested opts)
        = getGameUserCount_redisCacheKey gameId (overrideRequested opts')
      \<longleftrightarrow> overrideRequested opts = overrideRequested opts')
   \<and> (overrideRequested opts = overrideRequested opts' \<longrightarrow>
        getGameUserCount_queryObject gameId (overrideRequested opts)
          = getGameUserCount_queryObject gameId (overrideRequested opts')
        \<and> getGameUserCount gameId opts a = getGameUserCount gameId opts' a)"
proof -
  have norm: "overrideRequested (opts\<lparr>optRequested := Some True\<rparr>)
     = opts\<lparr>optRequested := Some True, optPlayers := Some False, optSpectators := Some False,
            optSpecials := Some False\<rparr>"
    by (simp add: overrideRequested_def)
  have idem: "getGameUserCount gameId opts a = getGameUserCount gameId (overrideRequested opts) a"
    by (simp add: getGameUserCount_def overrideRequested_idem)
  have first: "take 1 (getGameUserCount gameId opts (a\<lparr>ready := True\<rparr>))
       = [RedisGet (getGameUserCount_redisCacheKey gameId (overrideRequested opts))]"
    by (simp add: getGameUserCount_def Let_def cachedQuery_asked)
  have same: "overrideRequested opts = overrideRequested opts' \<longrightarrow>
        getGameUserCount_queryObject gameId (overrideRequested opts)
          = getGameUserCount_queryObject gameId (overrideRequested opts')
        \<and> getGameUserCount gameId opts a = getGameUserCount gameId opts' a"
    by (simp add: getGameUserCount_def)
  show ?thesis
    using norm idem first same getGameUserCount_redisCacheKey_eq by blast
qed

theorem getGameUserCount_key_of_normalized_options_witness:
  "overrideRequested \<lparr>optPlayers = Some True, optSpectators = None, optSpecials = None,
       optRequested = Some True, optUser = None\<rparr>
     = overrideRequested \<lparr>optPlayers = None, optSpectators = Some False, optSpecials = None,
       optRequested = Some True, optUser = None\<rparr>
   \<and> getGameUserCount_redisCacheKey ''g1''
        (overrideRequested \<lparr>optPlayers = Some True, optSpectators = None, optSpecials = None,
           optRequested = Some True, optUser = None\<rparr>)
      = ''model:gameuser:getGamePlayerCount:g1:0,0,0,1:count''
   \<and> getGameUserCount ''g1''
        \<lparr>optPlayers = Some True, optSpectators = None, optSpecials = None,
         optRequested = Some True, optUser = None\<rparr>
        \<lparr>ready = True, got = RedisValue ''2'', fetched = Inr [], readyAfter = True, stored = None\<rparr>
      = getGameUserCount ''g1''
        \<lparr>optPlayers = None, optSpectators = Some False, optSpecials = None,
         optRequested = Some True, optUser = None\<rparr>
        \<lparr>ready = True, got = RedisValue ''2'', fetched = Inr [], readyAfter = True, stored = None\<rparr>"
proof -
  have eq: "overrideRequested \<lparr>optPlayers = Some True, optSpectators = None, optSpecials = None,
       optRequested = Some True, optUser = None\<rparr>
     = overrideRequested \<lparr>optPlayers = None, optSpectators = Some False, optSpecials = None,
       optRequested = Some True, optUser = None\<rparr>"
    by (simp add: overrideRequested_def)
  have key: "getGameUserCount_redisCacheKey ''g1''
        (overrideRequested \<lparr>optPlayers = Some True, optSpectators = None, optSpecials = None,
           optRequested = Some True, optUser = None\<rparr>)
      = ''model:gameuser:getGamePlayerCount:g1:0,0,0,1:count''"
    by (simp add: overrideRequested_def getGameUserCount_redisCacheKey_def flagKey_def
        REDIS_KEY_ROOT_def)
  from getGameUserCount_key_of_normalized_options[of
      "\<lparr>optPlayers = Some True, optSpectators = None, optSpecials = None,
        optRequested = Some True, optUser = None\<rparr>" "''g1''"
      "\<lparr>ready = True, got = RedisValue ''2'', fetched = Inr [], readyAfter = True, stored = None\<rparr>"
      "\<lparr>optPlayers = None, optSpectators = Some False, optSpecials = None,
        optRequested = Some True, optUser = None\<rparr>"]
  have "overrideRequested \<lparr>optPlayers = Some True, optSpectators = None, optSpecials = None,
       optRequested = Some True, optUser = None\<rparr>
     = overrideRequested \<lparr>optPlayers = None, optSpectators = Some False, optSpecials = None,
       optRequested = Some True, optUser = None\<rparr> \<longrightarrow>
     getGameUserCount ''g1''
        \<lparr>optPlayers = Some True, optSpectators = None, optSpecials = None,
         optRequested = Some True, optUser = None\<rparr>
        \<lparr>ready = True, got = RedisValue ''2'', fetched = Inr [], readyAfter = True, stored = None\<rparr>
      = getGameUserCount ''g1''
        \<lparr>optPlayers = None, optSpectators = Some False, optSpecials = None,
         optRequested = Some True, optUser = None\<rparr>
        \<lparr>ready = True, got = RedisValue ''2'', fetched = Inr [], readyAfter = True, stored = None\<rparr>"
    by blast
  with eq key show ?thesis by blast
qed

section \<open>Which queries read the fast store\<close>

lemma filter_isRedisGet_storeResult: "filter isRedisGet (storeResult a k v) = []"
  by (simp add: storeResult_def split: option.splits)

lemma filter_isRedisGet_mongoStage: "filter isRedisGet (mongoStage a k q p result cached) = []"
  by (simp add: mongoStage_def filter_isRedisGet_storeResult split: sum.splits)

lemma hasUser_first:
  "take 1 (hasUser gameId user opts (a\<lparr>ready := True\<rparr>))
     = [RedisGet (getGameUserCount_redisCacheKey gameId
          (overrideRequested (opts\<lparr>optUser := Some user\<rparr>)))]"
  by (simp add: hasUser_def getGameUserCount_def Let_def cachedQuery_asked)

text \<open>
  C8, as the code has it. When Redis is ready, the first thing \<^verbatim>\<open>isValidId\<close>,
  \<^verbatim>\<open>getUserById\<close>, \<^verbatim>\<open>getGameUserCount\<close>, \<^verbatim>\<open>hasUser\<close>, \<^verbatim>\<open>getGameUsersCount\<close>,
  \<^verbatim>\<open>getUserGameState\<close>, \<^verbatim>\<open>getGameUser\<close> and \<^verbatim>\<open>getTeamUserCount\<close> do on valid IDs is to read their cache key
  from Redis, before any MongoDB query. \<^verbatim>\<open>getTeamGameUsers\<close> and \<^verbatim>\<open>getTeamUsers\<close>
  never read from Redis; after MongoDB has replied with rows, and Redis is ready, they
  write the joined IDs under their key.
\<close>

theorem cached_queries_read_first:
  "take 1 (isValidId (ObjectId i) (a\<lparr>ready := True\<rparr>) redisFirst)
     = [RedisGet (REDIS_KEY_ROOT @ '':'' @ i @ '':exists'')]
   \<and> take 1 (getUserById (ObjectId i) (a\<lparr>ready := True\<rparr>) redisFirst)
     = [RedisGet (REDIS_KEY_ROOT @ '':'' @ i @ '':exists'')]
   \<and> take 1 (getGameUserCount gameId opts (a\<lparr>ready := True\<rparr>))
     = [RedisGet (getGameUserCount_redisCacheKey gameId (overrideRequested opts))]
   \<and> take 1 (hasUser gameId user opts (a\<lparr>ready := True\<rparr>))
     = [RedisGet (getGameUserCount_redisCacheKey gameId
          (overrideRequested (opts\<lparr>optUser := Some user\<rparr>)))]
   \<and> take 1 (getGameUsersCount gameId (a\<lparr>ready := True\<rparr>))
     = [RedisGet (REDIS_KEY_ROOT @ '':getGameUsersCount:'' @ gameId)]
   \<and> take 1 (getUserGameState gameId user (a\<lparr>ready := True\<rparr>))
     = [RedisGet (REDIS_KEY_ROOT @ '':getUserGameState:'' @ gameId @ '':'' @ user)]
   \<and> take 1 (getGameUser (ObjectId gameId) (ObjectId user) (a\<lparr>ready := True\<rparr>))
     = [RedisGet (REDIS_KEY_ROOT @ '':getGameUser'' @ gameId @ '':'' @ user)]
   \<and> take 1 (getTeamUserCount (ObjectId team) (a\<lparr>ready := True\<rparr>))
     = [RedisGet (REDIS_KEY_ROOT @ '':getTeamUserCount:'' @ team)]
   \<and> filter isRedisGet (getTeamGameUsers teamArg a) = []
   \<and> filter isRedisGet (getTeamUsers teamArg a) = []
   \<and> getTeamGameUsers (ObjectId team) (a\<lparr>fetched := Inr data, readyAfter := True\<rparr>)
     = MongoFetch (emptyQuery\<lparr>q_team_id := Some (TeamIs team)\<rparr>) [''_id'']
       # Callback None (Some (map row_id data))
       # RedisSetex (REDIS_KEY_ROOT @ '':getTeamGameUsers:'' @ team) (join '','' (map row_id data))
       # (case stored a of Some err \<Rightarrow> [ConsoleError (RedisErr err)] | None \<Rightarrow> [])
   \<and> getTeamUsers (ObjectId team) (a\<lparr>fetched := Inr data, readyAfter := True\<rparr>)
     = MongoFetch (emptyQuery\<lparr>q_team_id := Some (TeamIs team)\<rparr>) [''user_id'']
       # Callback None (Some (map user_id data))
       # RedisSetex (REDIS_KEY_ROOT @ '':getTeamUsers:'' @ team) (join '','' (map user_id data))
       # (case stored a of Some err \<Rightarrow> [ConsoleError (RedisErr err)] | None \<Rightarrow> [])"
proof -
  have 1: "take 1 (isValidId (ObjectId i) (a\<lparr>ready := True\<rparr>) redisFirst)
     = [RedisGet (REDIS_KEY_ROOT @ '':'' @ i @ '':exists'')]"
    by (simp add: isValidId_asked)
  have 11: "take 1 (getUserById (ObjectId i) (a\<lparr>ready := True\<rparr>) redisFirst)
     = [RedisGet (REDIS_KEY_ROOT @ '':'' @ i @ '':exists'')]"
    by (simp add: getUserById_def isValidId_asked)
  have 2: "take 1 (getGameUserCount gameId opts (a\<lparr>ready := True\<rparr>))
     = [RedisGet (getGameUserCount_redisCacheKey gameId (overrideRequested opts))]"
    by (simp add: getGameUserCount_def Let_def cachedQuery_asked)
  have 3: "take 1 (getGameUsersCount gameId (a\<lparr>ready := True\<rparr>))
     = [RedisGet (REDIS_KEY_ROOT @ '':getGameUsersCount:'' @ gameId)]"
    by (simp add: getGameUsersCount_def Let_def cachedQuery_asked)
  have 4: "take 1 (getUserGameState gameId user (a\<lparr>ready := True\<rparr>))
     = [RedisGet (REDIS_KEY_ROOT @ '':getUserGameState:'' @ gameId @ '':'' @ user)]"
    by (simp add: getUserGameState_def Let_def cachedQuery_asked)
  have 5: "take 1 (getGameUser (ObjectId gameId) (ObjectId user) (a\<lparr>ready := True\<rparr>))
     = [RedisGet (REDIS_KEY_ROOT @ '':getGameUser'' @ gameId @ '':'' @ user)]"
    by (simp add: getGameUser_def Let_def cachedQuery_asked)
  have 6: "take 1 (getTeamUserCount (ObjectId team) (a\<lparr>ready := True\<rparr>))
     = [RedisGet (REDIS_KEY_ROOT @ '':getTeamUserCount:'' @ team)]"
    by (simp add: getTeamUserCount_def Let_def cachedQuery_asked)
  have 7: "filter isRedisGet (getTeamGameUsers teamArg a) = []"
    by (cases teamArg)
       (simp_all add: getTeamGameUsers_def Let_def cachedQuery_not_asked
         filter_isRedisGet_mongoStage)
  have 8: "filter isRedisGet (getTeamUsers teamArg a) = []"
    by (cases teamArg)
       (simp_all add: getTeamUsers_def Let_def cachedQuery_not_asked
         filter_isRedisGet_mongoStage)
  have 9: "getTeamGameUsers (ObjectId team) (a\<lparr>fetched := Inr data, readyAfter := True\<rparr>)
     = MongoFetch (emptyQuery\<lparr>q_team_id := Some (TeamIs team)\<rparr>) [''_id'']
       # Callback None (Some (map row_id data))
       # RedisSetex (REDIS_KEY_ROOT @ '':getTeamGameUsers:'' @ team) (join '','' (map row_id data))
       # (case stored a of Some err \<Rightarrow> [ConsoleError (RedisErr err)] | None \<Rightarrow> [])"
    by (simp add: getTeamGameUsers_def Let_def cachedQuery_not_asked mongoStage_def
        storeResult_def)
  have 10: "getTeamUsers (ObjectId team) (a\<lparr>fetched := Inr data, readyAfter := True\<rparr>)
     = MongoFetch (emptyQuery\<lparr>q_team_id := Some (TeamIs team)\<rparr>) [''user_id'']
       # Callback None (Some (map user_id data))
       # RedisSetex (REDIS_KEY_ROOT @ '':getTeamUsers:'' @ team) (join '','' (map user_id data))
       # (case stored a of Some err \<Rightarrow> [ConsoleError (RedisErr err)] | None \<Rightarrow> [])"
    by (simp add: getTeamUsers_def Let_def cachedQuery_not_asked mongoStage_def
        storeResult_def)
  show ?thesis
    using 1 2 3 4 5 6 7 8 9 10 11 hasUser_first by blast
qed

text \<open>
  C8, as claimed, fails: Redis is ready and holds a value under the key of
  \<^verbatim>\<open>getTeamUsers\<close> for the team, and the function queries MongoDB without reading it.
\<close>

theorem getTeamUsers_never_reads_redis:
  "getTeamUsers (ObjectId ''t1'')
     \<lparr>ready = True, got = RedisValue ''u1,u2'',
      fetched = Inr [\<lparr>row_id = ''r1'', user_id = ''u1'', team_id = Some ''t1'',
                      is_special = False, is_spectator = False\<rparr>],
      readyAfter = True, stored = None\<rparr>
   = [MongoFetch (emptyQuery\<lparr>q_team_id := Some (TeamIs ''t1'')\<rparr>) [''user_id''],
      Callback None (Some [''u1'']),
      RedisSetex ''model:gameuser:getTeamUsers:t1'' ''u1'']"
  by (simp add: getTeamUsers_def Let_def cachedQuery_not_asked mongoStage_def storeResult_def
      REDIS_KEY_ROOT_def)

section \<open>Which errors reach the callback\<close>




























section \<open>Properties of getGameUsersCount\<close>

lemma getGameUsersCount_from_mongo:
  "getGameUsersCount gameId (a\<lparr>fetched := Inr data, got := RedisNil\<rparr>)
     = (if ready a then [RedisGet (REDIS_KEY_ROOT @ '':getGameUsersCount:'' @ gameId)] else [])
       @ MongoFetch (emptyQuery\<lparr>q_game_id := Some gameId\<rparr>)
           [''team_id'', ''is_special'', ''is_spectator'']
       # Callback None (Some (countGameUsers gameUsersStateObject data))
       # storeResult a (REDIS_KEY_ROOT @ '':getGameUsersCount:'' @ gameId)
           (gameUsersState_dataString (countGameUsers gameUsersStateObject data))"
  unfolding getGameUsersCount_def Let_def cachedQuery_redis_nil
  by (simp add: mongoStage_def storeResult_def)

lemma inc_funpow: "(inc ^^ n) (Num k) = Num (k + int n)"
  by (induction n) simp_all

lemma countGameUser_fields:
  "total (countGameUser s r) = inc (total s)"
  "requested (countGameUser s r) = (if isRequested r then inc (requested s) else requested s)"
  "totalAccepted (countGameUser s r)
     = (if isRequested r then totalAccepted s else inc (totalAccepted s))"
  "players (countGameUser s r) = (if team_id r \<noteq> None then inc (players s) else players s)"
  "specials (countGameUser s r) = (if is_special r then inc (specials s) else specials s)"
  "spectators (countGameUser s r) = (if is_spectator r then inc (spectators s) else spectators s)"
  by (simp_all add: countGameUser_def isRequested_def Let_def)

lemma countGameUsers_fields:
  "total (countGameUsers s data) = (inc ^^ length data) (total s)"
  "requested (countGameUsers s data) = (inc ^^ length (filter isRequested data)) (requested s)"
  "totalAccepted (countGameUsers s data)
     = (inc ^^ length (filter (\<lambda>r. \<not> isRequested r) data)) (totalAccepted s)"
  "players (countGameUsers s data)
     = (inc ^^ length (filter (\<lambda>r. team_id r \<noteq> None) data)) (players s)"
  "specials (countGameUsers s data) = (inc ^^ length (filter is_special data)) (specials s)"
  "spectators (countGameUsers s data)
     = (inc ^^ length (filter is_spectator data)) (spectators s)"
  unfolding countGameUsers_def
  by (induction data arbitrary: s; simp add: countGameUser_fields funpow_swap1)+

text \<open>
  C10. The result object that \<^verbatim>\<open>getGameUsersCount\<close> builds from the rows of the
  authoritative store, and calls back when Redis had no value, satisfies
  \<open>total = totalAccepted + requested\<close>; a row is counted as requested exactly when it
  has no team and is neither special nor spectator, and as accepted otherwise;
  \<open>players\<close>, \<open>specials\<close> and \<open>spectators\<close> count the rows with a team, with the
  special flag and with the spectator flag, and \<open>total\<close> counts all rows.
\<close>

theorem getGameUsersCount_totals:
  "total (countGameUsers gameUsersStateObject data)
     = jsPlus (totalAccepted (countGameUsers gameUsersStateObject data))
         (requested (countGameUsers gameUsersStateObject data))
   \<and> total (countGameUsers gameUsersStateObject data) = Num (int (length data))
   \<and> requested (countGameUsers gameUsersStateObject data)
       = Num (int (length
           (filter (\<lambda>r. team_id r = None \<and> \<not> is_special r \<and> \<not> is_spectator r) data)))
   \<and> totalAccepted (countGameUsers gameUsersStateObject data)
       = Num (int (length
           (filter (\<lambda>r. \<not> (team_id r = None \<and> \<not> is_special r \<and> \<not> is_spectator r)) data)))
   \<and> players (countGameUsers gameUsersStateObject data)
       = Num (int (length (filter (\<lambda>r. team_id r \<noteq> None) data)))
   \<and> specials (countGameUsers gameUsersStateObject data)
       = Num (int (length (filter is_special data)))
   \<and> spectators (countGameUsers gameUsersStateObject data)
       = Num (int (length (filter is_spectator data)))
   \<and> getGameUsersCount gameId (a\<lparr>fetched := Inr data, got := RedisNil\<rparr>)
       = (if ready a then [RedisGet (REDIS_KEY_ROOT @ '':getGameUsersCount:'' @ gameId)] else [])
         @ MongoFetch (emptyQuery\<lparr>q_game_id := Some gameId\<rparr>)
             [''team_id'', ''is_special'', ''is_spectator'']
         # Callback None (Some (countGameUsers gameUsersStateObject data))
         # storeResult a (REDIS_KEY_ROOT @ '':getGameUsersCount:'' @ gameId)
             (gameUsersState_dataString (countGameUsers gameUsersStateObject data))"
proof -
  have split: "length data
      = length (filter (\<lambda>r. \<not> isRequested r) data) + length (filter isRequested data)"
    using sum_length_filter_compl[of isRequested data] by simp
  have req: "isRequested = (\<lambda>r. team_id r = None \<and> \<not> is_special r \<and> \<not> is_spectator r)"
    by (rule ext) (simp add: isRequested_def)
  have counts: "total (countGameUsers gameUsersStateObject data) = Num (int (length data))"
    "requested (countGameUsers gameUsersStateObject data)
       = Num (int (length (filter isRequested data)))"
    "totalAccepted (countGameUsers gameUsersStateObject data)
       = Num (int (length (filter (\<lambda>r. \<not> isRequested r) data)))"
    "players (countGameUsers gameUsersStateObject data)
       = Num (int (length (filter (\<lambda>r. team_id r \<noteq> None) data)))"
    "specials (countGameUsers gameUsersStateObject data)
       = Num (int (length (filter is_special data)))"
    "spectators (countGameUsers gameUsersStateObject data)
       = Num (int (length (filter is_spectator data)))"
    by (simp_all add: countGameUsers_fields gameUsersStateObject_def inc_funpow)
  have sum: "total (countGameUsers gameUsersStateObject data)
     = jsPlus (totalAccepted (countGameUsers gameUsersStateObject data))
         (requested (countGameUsers gameUsersStateObject data))"
    using split by (simp add: counts)
  note run = getGameUsersCount_from_mongo
  show ?thesis
    using sum counts run unfolding req by blast
qed

end
